theory Spec2Isabelle
  imports Main
begin

section \<open>JavaScript values\<close>

text \<open>
  The downloader (second part of \<^verbatim>\<open>src/modules/ytdl/index.ts\<close>) handles payloads typed
  \<^verbatim>\<open>any\<close>: the backup API's \<^verbatim>\<open>result\<close> and the page's rehydration JSON. They are
  modelled as a datatype of JavaScript values. Numbers are integers (the identifiers and
  epoch seconds the program handles); strings are lists of code units below 256.
\<close>

datatype json =
    JUndefined
  | JNull
  | JBool bool
  | JNum int
  | JStr string
  | JArr "json list"
  | JObj "(string \<times> json) list"

text \<open>A thrown \<^verbatim>\<open>Error\<close> object: its \<^verbatim>\<open>name\<close> and its \<^verbatim>\<open>message\<close>.\<close>

datatype js_error = JsError (err_name: string) (message: string)

definition TypeError :: "string \<Rightarrow> js_error" where
  "TypeError m = JsError ''TypeError'' m"

definition Error :: "string \<Rightarrow> js_error" where
  "Error m = JsError ''Error'' m"

text \<open>\<^verbatim>\<open>!!v\<close>: the values that count as true in a condition.\<close>

fun truthy :: "json \<Rightarrow> bool" where
  "truthy JUndefined = False"
| "truthy JNull = False"
| "truthy (JBool b) = b"
| "truthy (JNum n) = (n \<noteq> 0)"
| "truthy (JStr s) = (s \<noteq> [])"
| "truthy (JArr xs) = True"
| "truthy (JObj kvs) = True"

fun nullish :: "json \<Rightarrow> bool" where
  "nullish JUndefined = True"
| "nullish JNull = True"
| "nullish v = False"

text \<open>\<^verbatim>\<open>a || b\<close> on values.\<close>

definition js_or :: "json \<Rightarrow> json \<Rightarrow> json" where
  "js_or a b = (if truthy a then a else b)"

subsection \<open>Decimal rendering\<close>

fun show_nat :: "nat \<Rightarrow> string" where
  "show_nat n =
     (if n < 10 then [''0123456789'' ! n]
      else show_nat (n div 10) @ [''0123456789'' ! (n mod 10)])"

declare show_nat.simps [simp del]

definition show_int :: "int \<Rightarrow> string" where
  "show_int i = (if i < 0 then CHR ''-'' # show_nat (nat (- i)) else show_nat (nat i))"

fun intercalate :: "string \<Rightarrow> string list \<Rightarrow> string" where
  "intercalate sep [] = []"
| "intercalate sep [x] = x"
| "intercalate sep (x # y # ys) = x @ sep @ intercalate sep (y # ys)"

text \<open>
  \<^verbatim>\<open>String(v)\<close>, which a template literal applies to each interpolated value. An array
  joins its elements with commas, \<^verbatim>\<open>null\<close> and \<^verbatim>\<open>undefined\<close> elements as the empty
  string. A number is printed in plain decimal, as JavaScript prints the integers it holds
  exactly (those of magnitude up to \<open>2\<^sup>5\<^sup>3\<close>); larger ones, which JavaScript rounds or
  prints with an exponent, are beyond what \<open>JNum\<close> stands for.
\<close>

fun toString :: "json \<Rightarrow> string" where
  "toString JUndefined = ''undefined''"
| "toString JNull = ''null''"
| "toString (JBool b) = (if b then ''true'' else ''false'')"
| "toString (JNum n) = show_int n"
| "toString (JStr s) = s"
| "toString (JArr xs) =
     intercalate '','' (map (\<lambda>x. if nullish x then [] else toString x) xs)"
| "toString (JObj kvs) = ''[object Object]''"

subsection \<open>Property access\<close>

text \<open>
  \<^verbatim>\<open>v?.k\<close> for the property names the program reads. None of them is inherited from a
  prototype, so an object has the property only as an own key; arrays and strings have
  \<^verbatim>\<open>length\<close>.
\<close>

fun optProp :: "json \<Rightarrow> string \<Rightarrow> json" where
  "optProp (JObj kvs) k = (case map_of kvs k of None \<Rightarrow> JUndefined | Some v \<Rightarrow> v)"
| "optProp (JArr xs) k = (if k = ''length'' then JNum (int (length xs)) else JUndefined)"
| "optProp (JStr s) k = (if k = ''length'' then JNum (int (length s)) else JUndefined)"
| "optProp v k = JUndefined"

text \<open>\<^verbatim>\<open>v.k\<close>: a \<^verbatim>\<open>TypeError\<close> on \<^verbatim>\<open>null\<close> and \<^verbatim>\<open>undefined\<close> (message as V8 words it).\<close>

definition getProp :: "json \<Rightarrow> string \<Rightarrow> js_error + json" where
  "getProp v k =
     (if nullish v
      then Inl (TypeError (''Cannot read properties of '' @ toString v @ '' (reading '' @
                           [CHR 0x27] @ k @ [CHR 0x27] @ '')''))
      else Inr (optProp v k))"

text \<open>\<^verbatim>\<open>v?.[i]\<close> and \<^verbatim>\<open>v[i]\<close> for a literal index.\<close>

fun optIndex :: "json \<Rightarrow> nat \<Rightarrow> json" where
  "optIndex (JArr xs) i = (if i < length xs then xs ! i else JUndefined)"
| "optIndex (JStr s) i = (if i < length s then JStr [s ! i] else JUndefined)"
| "optIndex (JObj kvs) i = (case map_of kvs (show_nat i) of None \<Rightarrow> JUndefined | Some v \<Rightarrow> v)"
| "optIndex v i = JUndefined"

definition getIndex :: "json \<Rightarrow> nat \<Rightarrow> js_error + json" where
  "getIndex v i =
     (if nullish v
      then Inl (TypeError (''Cannot read properties of '' @ toString v @ '' (reading '' @
                           [CHR 0x27] @ show_nat i @ [CHR 0x27] @ '')''))
      else Inr (optIndex v i))"

subsection \<open>Conversion to a number\<close>

text \<open>
  \<^verbatim>\<open>Number(v)\<close> with \<^verbatim>\<open>None\<close> for \<^verbatim>\<open>NaN\<close>. A string converts when, after trimming
  white space, it is empty (zero) or an optionally signed run of decimal digits. The
  other numeric notations of JavaScript (a fraction, an exponent, a hexadecimal, octal or
  binary literal, \<^verbatim>\<open>Infinity\<close>) fall outside the integer model: such a string is not
  NaN in JavaScript, and the model is not to be read at such an input.
\<close>

definition is_space :: "char \<Rightarrow> bool" where
  "is_space c = (c \<in> set [CHR 0x20, CHR 0x09, CHR 0x0A, CHR 0x0B, CHR 0x0C, CHR 0x0D, CHR 0xA0])"

definition trim :: "string \<Rightarrow> string" where
  "trim s = rev (dropWhile is_space (rev (dropWhile is_space s)))"

definition is_digit :: "char \<Rightarrow> bool" where
  "is_digit c = (48 \<le> (of_char c :: nat) \<and> (of_char c :: nat) \<le> 57)"

definition digits_val :: "string \<Rightarrow> nat" where
  "digits_val ds = foldl (\<lambda>acc c. 10 * acc + (of_char c - 48)) 0 ds"

definition parse_digits :: "string \<Rightarrow> nat option" where
  "parse_digits ds = (if ds \<noteq> [] \<and> list_all is_digit ds then Some (digits_val ds) else None)"

definition stringToNumber :: "string \<Rightarrow> int option" where
  "stringToNumber s =
     (case trim s of
        [] \<Rightarrow> Some 0
      | c # cs \<Rightarrow>
          if c = CHR ''-'' then map_option (\<lambda>n. - int n) (parse_digits cs)
          else if c = CHR ''+'' then map_option int (parse_digits cs)
          else map_option int (parse_digits (c # cs)))"

fun toNumber :: "json \<Rightarrow> int option" where
  "toNumber JUndefined = None"
| "toNumber JNull = Some 0"
| "toNumber (JBool b) = Some (if b then 1 else 0)"
| "toNumber (JNum n) = Some n"
| "toNumber (JStr s) = stringToNumber s"
| "toNumber (JArr xs) = stringToNumber (toString (JArr xs))"
| "toNumber (JObj kvs) = None"

text \<open>\<^verbatim>\<open>a < b\<close> and \<^verbatim>\<open>a > b\<close> against a number: false when either side is \<^verbatim>\<open>NaN\<close>.\<close>

definition js_lt :: "int \<Rightarrow> json \<Rightarrow> bool" where
  "js_lt i v = (case toNumber v of None \<Rightarrow> False | Some n \<Rightarrow> i < n)"

definition js_gt :: "json \<Rightarrow> int \<Rightarrow> bool" where
  "js_gt v i = (case toNumber v of None \<Rightarrow> False | Some n \<Rightarrow> n > i)"

section \<open>Strings, URLs and dates\<close>

subsection \<open>\<^verbatim>\<open>String.prototype.includes\<close>, \<^verbatim>\<open>padStart(2, "0")\<close>, \<^verbatim>\<open>encodeURIComponent\<close>\<close>

fun includes_str :: "string \<Rightarrow> string \<Rightarrow> bool" where
  "includes_str [] sub = (sub = [])"
| "includes_str (c # cs) sub = (take (length sub) (c # cs) = sub \<or> includes_str cs sub)"

definition padStart2 :: "string \<Rightarrow> string" where
  "padStart2 s = (if length s < 2 then replicate (2 - length s) CHR ''0'' @ s else s)"

definition hex2 :: "nat \<Rightarrow> string" where
  "hex2 n = [''0123456789ABCDEF'' ! (n div 16), ''0123456789ABCDEF'' ! (n mod 16)]"

definition unreserved :: "char \<Rightarrow> bool" where
  "unreserved c =
     (c \<in> set (''ABCDEFGHIJKLMNOPQRSTUVWXYZabcdefghijklmnopqrstuvwxyz0123456789-_.!~*()'' @
               [CHR 0x27]))"

text \<open>A code unit that is not unreserved is written as the bytes of its UTF-8 form.\<close>

definition encodeUnit :: "char \<Rightarrow> string" where
  "encodeUnit c =
     (let n = (of_char c :: nat) in
      if unreserved c then [c]
      else if n < 128 then CHR ''%'' # hex2 n
      else CHR ''%'' # hex2 (192 + n div 64) @ CHR ''%'' # hex2 (128 + n mod 64))"

definition encodeURIComponent :: "string \<Rightarrow> string" where
  "encodeURIComponent s = concat (map encodeUnit s)"

subsection \<open>The URL pattern\<close>

text \<open>
  \<^verbatim>\<open>TIKTOK_URL_REGEX = /^https?:\/\/(www\.|vm\.|vt\.)?(tiktok\.com)\/?(.*)$/\<close>.
  The matcher keeps every remainder a prefix of the pattern can leave, so an optional
  part is both taken and skipped, as backtracking does. The final \<^verbatim>\<open>(.*)$\<close> must reach
  the end of the input, and \<^verbatim>\<open>.\<close> matches no line terminator.
\<close>

definition lit :: "string \<Rightarrow> string list \<Rightarrow> string list" where
  "lit p rs = map (drop (length p)) (filter (\<lambda>r. take (length p) r = p) rs)"

definition opt :: "(string list \<Rightarrow> string list) \<Rightarrow> string list \<Rightarrow> string list" where
  "opt m rs = m rs @ rs"

definition line_terminator :: "char \<Rightarrow> bool" where
  "line_terminator c = (c = CHR 0x0A \<or> c = CHR 0x0D)"

definition TIKTOK_URL_REGEX_test :: "string \<Rightarrow> bool" where
  "TIKTOK_URL_REGEX_test url =
     (let r1 = opt (lit ''s'') (lit ''http'' [url]);
          r2 = lit ''://'' r1;
          r3 = opt (\<lambda>rs. lit ''www.'' rs @ lit ''vm.'' rs @ lit ''vt.'' rs) r2;
          r4 = lit ''tiktok.com'' r3;
          r5 = opt (lit ''/'') r4
      in list_ex (\<lambda>r. \<not> list_ex line_terminator r) r5)"

definition validateURL :: "string \<Rightarrow> bool" where
  "validateURL url = (if url = [] then False else TIKTOK_URL_REGEX_test url)"

subsection \<open>Dates\<close>

text \<open>
  A \<^verbatim>\<open>Date\<close> is its time value in milliseconds, \<^verbatim>\<open>None\<close> when invalid. The getters
  \<^verbatim>\<open>getDate\<close>, \<^verbatim>\<open>getMonth\<close> and \<^verbatim>\<open>getFullYear\<close> read the calendar date in the local
  time zone of the process: the time value plus the zone's offset at that instant
  (\<open>tza\<close>, in milliseconds). A getter of an invalid date is \<^verbatim>\<open>NaN\<close>, again \<^verbatim>\<open>None\<close>.
\<close>

definition newDate :: "int option \<Rightarrow> int option" where
  "newDate v =
     (case v of None \<Rightarrow> None
      | Some t \<Rightarrow> if \<bar>t\<bar> > 8640000000000000 then None else Some t)"

text \<open>Year, month (1 to 12) and day of the month of a day number counted from 1 January 1970.\<close>

definition civil_from_days :: "int \<Rightarrow> int \<times> int \<times> int" where
  "civil_from_days days =
     (let z = days + 719468;
          era = z div 146097;
          doe = z mod 146097;
          yoe = (doe - doe div 1460 + doe div 36524 - doe div 146096) div 365;
          doy = doe - (365 * yoe + yoe div 4 - yoe div 100);
          mp = (5 * doy + 2) div 153;
          d = doy - (153 * mp + 2) div 5 + 1;
          m = (if mp < 10 then mp + 3 else mp - 9);
          y = yoe + era * 400 + (if m \<le> 2 then 1 else 0)
      in (y, m, d))"

definition localDay :: "(int \<Rightarrow> int) \<Rightarrow> int \<Rightarrow> int" where
  "localDay tza t = (t + tza t) div 86400000"

definition getFullYear :: "(int \<Rightarrow> int) \<Rightarrow> int option \<Rightarrow> int option" where
  "getFullYear tza date = map_option (\<lambda>t. fst (civil_from_days (localDay tza t))) date"

definition getMonth :: "(int \<Rightarrow> int) \<Rightarrow> int option \<Rightarrow> int option" where
  "getMonth tza date = map_option (\<lambda>t. fst (snd (civil_from_days (localDay tza t))) - 1) date"

definition getDate :: "(int \<Rightarrow> int) \<Rightarrow> int option \<Rightarrow> int option" where
  "getDate tza date = map_option (\<lambda>t. snd (snd (civil_from_days (localDay tza t)))) date"

text \<open>\<^verbatim>\<open>Number.prototype.toString\<close>.\<close>

definition numToString :: "int option \<Rightarrow> string" where
  "numToString v = (case v of None \<Rightarrow> ''NaN'' | Some n \<Rightarrow> show_int n)"

definition formatUploadDate :: "(int \<Rightarrow> int) \<Rightarrow> json \<Rightarrow> string" where
  "formatUploadDate tza timestamp =
     (let createdDate = newDate (map_option (\<lambda>n. n * 1000) (toNumber timestamp))
      in padStart2 (numToString (getDate tza createdDate)) @
         padStart2 (numToString (map_option (\<lambda>m. m + 1) (getMonth tza createdDate))) @
         numToString (getFullYear tza createdDate))"

section \<open>The environment and the session state\<close>

datatype request =
  Request (req_url: json) (req_headers: "(string \<times> string) list") (req_responseType: "string option")

text \<open>
  A node of the parsed page: text and comment nodes carry \<^verbatim>\<open>data\<close>, elements carry
  \<^verbatim>\<open>children\<close>.
\<close>

datatype dom_node = DataNode string | ElementNode "dom_node list"

fun children :: "dom_node \<Rightarrow> dom_node list option" where
  "children (ElementNode cs) = Some cs"
| "children (DataNode d) = None"

fun data :: "dom_node \<Rightarrow> string option" where
  "data (DataNode d) = Some d"
| "data (ElementNode cs) = None"

text \<open>
  What the program does not decide itself:
  \<^item> \<open>http\<close>: the outcome of the \<open>n\<close>-th request of the session through the axios
    instance, either the error it throws or \<^verbatim>\<open>response.data\<close>;
  \<^item> \<open>select_rehydration\<close>: \<^verbatim>\<open>cheerio.load(html)\<close> followed by the selection
    \<^verbatim>\<open>$("#__UNIVERSAL_DATA_FOR_REHYDRATION__")\<close>;
  \<^item> \<open>JSON_parse\<close>: \<^verbatim>\<open>JSON.parse\<close>;
  \<^item> \<open>localTZA\<close>: the offset of local time from UTC, in milliseconds, at a given instant;
  \<^item> \<open>mkdirSync_error\<close>, \<open>writeFileSync_error\<close>: the error a file-system call throws, if
    any.
\<close>

record env =
  http :: "nat \<Rightarrow> request \<Rightarrow> js_error + json"
  select_rehydration :: "json \<Rightarrow> js_error + dom_node list"
  JSON_parse :: "string \<Rightarrow> js_error + json"
  localTZA :: "int \<Rightarrow> int"
  mkdirSync_error :: "string \<Rightarrow> js_error option"
  writeFileSync_error :: "string \<Rightarrow> string \<Rightarrow> json \<Rightarrow> js_error option"

datatype status = Success | Failed

record DownloadStat =
  type' :: string
  id' :: json
  author :: json
  status :: status
  details :: string

record VideoData =
  authorUniqueId :: json
  videoId :: json
  createTime :: json
  videoUrl :: json
  description :: json

datatype spinner = Spinning string | Succeed string | Fail string

text \<open>
  The state the program changes: the module-level list \<^verbatim>\<open>downloadStats\<close>, the requests
  sent so far, the directories that exist, the files written so far (directory, file
  name, content; in the order of the writes) and the spinner.
\<close>

record state =
  downloadStats :: "DownloadStat list"
  requests :: "request list"
  dirs :: "string list"
  written :: "(string \<times> string \<times> json) list"
  spinner :: spinner

type_synonym 'a io = "state \<Rightarrow> (js_error + 'a) \<times> state"

definition bind :: "'a io \<Rightarrow> ('a \<Rightarrow> 'b io) \<Rightarrow> 'b io" where
  "bind m f s = (case m s of (Inl e, s') \<Rightarrow> (Inl e, s') | (Inr a, s') \<Rightarrow> f a s')"

definition bindE :: "js_error + 'a \<Rightarrow> ('a \<Rightarrow> js_error + 'b) \<Rightarrow> js_error + 'b" where
  "bindE m f = (case m of Inl e \<Rightarrow> Inl e | Inr a \<Rightarrow> f a)"

definition lift :: "js_error + 'a \<Rightarrow> 'a io" where
  "lift r s = (r, s)"

definition set_spinner :: "spinner \<Rightarrow> unit io" where
  "set_spinner sp s = (Inr (), s\<lparr>spinner := sp\<rparr>)"

definition USER_AGENT :: string where
  "USER_AGENT = ''Mozilla/5.0 (Windows NT 10.0; WOW64) AppleWebKit/537.36 (KHTML, like Gecko) Chrome/120.0.0.0 Safari/537.36''"

definition MOBILE_USER_AGENT :: string where
  "MOBILE_USER_AGENT = ''TikTok 26.2.0 rv:262018 (iPhone; iOS 14.4.2; en_US) Cronet''"

definition API_URL :: string where
  "API_URL = ''https://api-tiktok-downloader.vercel.app/api/v4/download''"

definition VIDEO_DIR :: string where
  "VIDEO_DIR = ''./tiktok-videos''"

definition IMAGE_DIR :: string where
  "IMAGE_DIR = ''./tiktok-images''"

section \<open>The operations\<close>

text \<open>
  The three kinds of request the program sends: the page itself, a media file (with the
  page as referer) and the backup API.
\<close>

definition pageRequest :: "string \<Rightarrow> request" where
  "pageRequest url = Request (JStr url) [(''User-Agent'', USER_AGENT)] None"

definition mediaRequest :: "json \<Rightarrow> string \<Rightarrow> string \<Rightarrow> request" where
  "mediaRequest url referer responseType =
     Request url [(''Referer'', referer), (''User-Agent'', USER_AGENT)] (Some responseType)"

definition apiRequest :: "string \<Rightarrow> request" where
  "apiRequest url =
     Request (JStr (API_URL @ ''?url='' @ encodeURIComponent url))
             [(''User-Agent'', MOBILE_USER_AGENT)] None"

text \<open>A call of the axios instance: the request is sent and logged, the environment answers.\<close>

definition instance_request :: "env \<Rightarrow> request \<Rightarrow> json io" where
  "instance_request env r s = (http env (length (requests s)) r, s\<lparr>requests := requests s @ [r]\<rparr>)"

definition ensureDirectoryExists :: "env \<Rightarrow> string \<Rightarrow> unit io" where
  "ensureDirectoryExists env dirPath s =
     (if dirPath \<in> set (dirs s) then (Inr (), s)
      else case mkdirSync_error env dirPath of
             Some e \<Rightarrow> (Inl e, s)
           | None \<Rightarrow> (Inr (), s\<lparr>dirs := dirs s @ [dirPath]\<rparr>))"

text \<open>\<^verbatim>\<open>fs.writeFileSync(path.join(dir, fileName), data)\<close>.\<close>

definition writeFileSync :: "env \<Rightarrow> string \<Rightarrow> string \<Rightarrow> json \<Rightarrow> unit io" where
  "writeFileSync env dir fileName content s =
     (case writeFileSync_error env dir fileName content of
        Some e \<Rightarrow> (Inl e, s)
      | None \<Rightarrow> (Inr (), s\<lparr>written := written s @ [(dir, fileName, content)]\<rparr>))"

definition downloadFile :: "env \<Rightarrow> json \<Rightarrow> string \<Rightarrow> string \<Rightarrow> json io" where
  "downloadFile env url referer responseType =
     instance_request env (mediaRequest url referer responseType)"

text \<open>\<^verbatim>\<open>String(e)\<close> of an error object.\<close>

definition errorToString :: "js_error \<Rightarrow> string" where
  "errorToString e =
     (if message e = [] then err_name e
      else if err_name e = [] then message e
      else err_name e @ '': '' @ message e)"

definition handleHtml :: "env \<Rightarrow> string \<Rightarrow> json io" where
  "handleHtml env url s =
     (case instance_request env (pageRequest url) s of
        (Inl e, s') \<Rightarrow> (Inl (Error (if message e \<noteq> [] then message e else errorToString e)), s')
      | (Inr res_data, s') \<Rightarrow> (Inr res_data, s'))"

definition getMediaInfoFromAPI :: "env \<Rightarrow> string \<Rightarrow> json io" where
  "getMediaInfoFromAPI env url =
     bind (instance_request env (apiRequest url)) (\<lambda>response_data.
     bind (lift (getProp response_data ''status'')) (\<lambda>st.
       if st \<noteq> JStr ''success'' then lift (Inl (Error (''API Error: '' @ toString st)))
       else lift (getProp response_data ''result'')))"

subsection \<open>\<^verbatim>\<open>downloadImages\<close>\<close>

text \<open>
  The \<^verbatim>\<open>for\<close> loop of \<^verbatim>\<open>downloadImages\<close>, from index \<open>i\<close> with \<open>successCount\<close> files
  written so far. An iteration that throws ends the loop with the error.
\<close>

function imagesLoop ::
  "env \<Rightarrow> string \<Rightarrow> json \<Rightarrow> json \<Rightarrow> json \<Rightarrow> json \<Rightarrow> nat \<Rightarrow> nat \<Rightarrow> nat io" where
  "imagesLoop env url imageId imageUrls timestamp authorId i successCount s =
     (case getProp imageUrls ''length'' of
        Inl e \<Rightarrow> (Inl e, s)
      | Inr len \<Rightarrow>
          if js_lt (int i) len then
            (let s1 = s\<lparr>spinner := Spinning (''Downloading Image '' @ show_nat (i + 1) @ ''/'' @
                                            toString len @ ''...'')\<rparr>;
                 imageUrl = optIndex imageUrls i
             in case instance_request env (mediaRequest imageUrl url ''arraybuffer'') s1 of
                  (Inl e, s2) \<Rightarrow> (Inl e, s2)
                | (Inr response_data, s2) \<Rightarrow>
                    (let formattedDate = formatUploadDate (localTZA env) timestamp;
                         fileName = toString authorId @ ''_img_'' @ formattedDate @ ''_'' @
                                    toString imageId @ ''_'' @ show_nat (i + 1) @ ''.jpg''
                     in case writeFileSync env IMAGE_DIR fileName response_data s2 of
                          (Inl e, s3) \<Rightarrow> (Inl e, s3)
                        | (Inr u, s3) \<Rightarrow>
                            imagesLoop env url imageId imageUrls timestamp authorId
                              (i + 1) (successCount + 1) s3))
          else (Inr successCount, s))"
  by pat_completeness auto
termination
  by (relation "measure (\<lambda>(env, url, imageId, imageUrls, timestamp, authorId, i, successCount, s).
        case toNumber (optProp imageUrls ''length'') of
          None \<Rightarrow> 0
        | Some n \<Rightarrow> nat (n - int i))")
     (auto simp: js_lt_def getProp_def split: option.splits if_splits)

declare imagesLoop.simps [simp del]

definition downloadImages ::
  "env \<Rightarrow> string \<Rightarrow> json \<Rightarrow> json \<Rightarrow> json \<Rightarrow> json \<Rightarrow> unit io" where
  "downloadImages env url imageId imageUrls timestamp authorId s =
     (case bind (ensureDirectoryExists env IMAGE_DIR)
                (\<lambda>u. imagesLoop env url imageId imageUrls timestamp authorId 0 0) s of
        (Inr successCount, s') \<Rightarrow>
          (Inr (),
           s'\<lparr>downloadStats := downloadStats s' @
                 [\<lparr>type' = ''Photo Slide'', id' = imageId, author = authorId, status = Success,
                   details = show_nat successCount @ '' Images''\<rparr>]\<rparr>)
      | (Inl error, s') \<Rightarrow>
          (Inl error,
           s'\<lparr>downloadStats := downloadStats s' @
                 [\<lparr>type' = ''Photo'', id' = js_or imageId (JStr ''Unknown''),
                   author = js_or authorId (JStr ''Unknown''), status = Failed,
                   details = message error\<rparr>]\<rparr>))"

subsection \<open>\<^verbatim>\<open>downloadVideo\<close>\<close>

definition downloadVideo :: "env \<Rightarrow> VideoData \<Rightarrow> string \<Rightarrow> string io" where
  "downloadVideo env videoData url s =
     (case bind (downloadFile env (videoUrl videoData) url ''arraybuffer'') (\<lambda>videoBuffer.
             (let formattedDate = formatUploadDate (localTZA env) (createTime videoData);
                  fileName = toString (authorUniqueId videoData) @ ''_vid_'' @ formattedDate @
                             ''_'' @ toString (videoId videoData) @ ''.mp4''
              in bind (ensureDirectoryExists env VIDEO_DIR) (\<lambda>u.
                 bind (writeFileSync env VIDEO_DIR fileName videoBuffer) (\<lambda>u.
                 lift (Inr fileName))))) s of
        (Inr fileName, s') \<Rightarrow>
          (Inr fileName,
           s'\<lparr>downloadStats := downloadStats s' @
                 [\<lparr>type' = ''Video'', id' = videoId videoData, author = authorUniqueId videoData,
                   status = Success, details = ''MP4 Saved''\<rparr>]\<rparr>)
      | (Inl error, s') \<Rightarrow>
          (Inl error,
           s'\<lparr>downloadStats := downloadStats s' @
                 [\<lparr>type' = ''Video'', id' = js_or (videoId videoData) (JStr ''Unknown''),
                   author = js_or (authorUniqueId videoData) (JStr ''Unknown''),
                   status = Failed, details = message error\<rparr>]\<rparr>))"

subsection \<open>\<^verbatim>\<open>extractVideoDataFromJson\<close>\<close>

text \<open>The body of the \<^verbatim>\<open>try\<close> block; \<^verbatim>\<open>None\<close> is the \<^verbatim>\<open>null\<close> it returns.\<close>

definition extractVideoDataFromJson_try :: "env \<Rightarrow> string \<Rightarrow> js_error + VideoData option" where
  "extractVideoDataFromJson_try env rawJSON =
     bindE (JSON_parse env rawJSON) (\<lambda>parsedJSON.
     let videoDetail = optProp (optProp parsedJSON ''__DEFAULT_SCOPE__'') ''webapp.video-detail'' in
     if \<not> truthy videoDetail then Inr None
     else
     bindE (getProp videoDetail ''itemInfo'') (\<lambda>itemInfo.
     let itemStruct = optProp itemInfo ''itemStruct'' in
     if \<not> truthy itemStruct then Inr None
     else
     bindE (getProp itemStruct ''author'') (\<lambda>author'.
     bindE (getProp itemStruct ''video'') (\<lambda>video.
     if \<not> truthy author' \<or> \<not> truthy video then Inr None
     else
     bindE (getProp video ''playAddr'') (\<lambda>playAddr.
     bindE (getProp video ''bitrateInfo'') (\<lambda>bitrateInfo.
     bindE (if js_gt (optProp bitrateInfo ''length'') 0
            then bindE (getIndex bitrateInfo 0) (\<lambda>b0.
                 bindE (getProp b0 ''PlayAddr'') (\<lambda>pa.
                 let u = optIndex (optProp pa ''UrlList'') 0
                 in Inr (if truthy u then u else playAddr)))
            else Inr playAddr) (\<lambda>videoUrl'.
     bindE (getProp author' ''uniqueId'') (\<lambda>uniqueId.
     bindE (getProp itemStruct ''id'') (\<lambda>itemId.
     bindE (getProp itemStruct ''createTime'') (\<lambda>createTime'.
     bindE (getProp itemStruct ''desc'') (\<lambda>desc.
       Inr (Some \<lparr>authorUniqueId = uniqueId, videoId = itemId, createTime = createTime',
                  videoUrl = videoUrl', description = desc\<rparr>))))))))))))"

definition extractVideoDataFromJson :: "env \<Rightarrow> string \<Rightarrow> VideoData option" where
  "extractVideoDataFromJson env rawJSON =
     (case extractVideoDataFromJson_try env rawJSON of
        Inl error \<Rightarrow> None
      | Inr r \<Rightarrow> r)"

subsection \<open>\<^verbatim>\<open>processUrl\<close>\<close>

text \<open>
  The inner \<^verbatim>\<open>try\<close> block of \<^verbatim>\<open>processUrl\<close>, the extraction from the page's HTML: its
  value is the \<^verbatim>\<open>videoData\<close> it leaves, \<^verbatim>\<open>None\<close> for \<^verbatim>\<open>null\<close>. The empty \<^verbatim>\<open>catch\<close>
  discards every error.
\<close>

text \<open>
  \<^verbatim>\<open>jsonDataElement[0]?.children?.[0]?.data\<close> under the guard
  \<^verbatim>\<open>jsonDataElement.length > 0\<close>; \<^verbatim>\<open>None\<close> when there is nothing to read.
\<close>

definition rawJSON_of :: "dom_node list \<Rightarrow> string option" where
  "rawJSON_of jsonDataElement =
     (case jsonDataElement of
        [] \<Rightarrow> None
      | el # els \<Rightarrow>
          (case children el of
             None \<Rightarrow> None
           | Some [] \<Rightarrow> None
           | Some (child # cs) \<Rightarrow> data child))"

definition htmlExtraction :: "env \<Rightarrow> string \<Rightarrow> state \<Rightarrow> VideoData option \<times> state" where
  "htmlExtraction env url s =
     (case handleHtml env url s of
        (Inl ignored, s') \<Rightarrow> (None, s')
      | (Inr html, s') \<Rightarrow>
          (case select_rehydration env html of
             Inl ignored \<Rightarrow> (None, s')
           | Inr jsonDataElement \<Rightarrow>
               (case rawJSON_of jsonDataElement of
                  None \<Rightarrow> (None, s')
                | Some rawJSON \<Rightarrow>
                    if rawJSON \<noteq> [] then (extractVideoDataFromJson env rawJSON, s')
                    else (None, s'))))"

text \<open>The branch for a URL that contains \<^verbatim>\<open>/photo/\<close>.\<close>

definition processPhoto :: "env \<Rightarrow> string \<Rightarrow> unit io" where
  "processPhoto env url =
     bind (set_spinner (Spinning ''Fetching photo metadata via API...'')) (\<lambda>u.
     bind (getMediaInfoFromAPI env url) (\<lambda>photoData.
     bind (lift (getProp photoData ''type'')) (\<lambda>ty.
     bind (lift (if ty \<noteq> JStr ''image'' then Inr True
                 else bindE (getProp photoData ''images'') (\<lambda>images. Inr (\<not> truthy images))))
          (\<lambda>invalid.
     if invalid then lift (Inl (Error ''Invalid photo data structure''))
     else
     bind (lift (getProp photoData ''images'')) (\<lambda>images.
     bind (lift (getProp images ''length'')) (\<lambda>len.
     bind (set_spinner (Spinning (''Found '' @ toString len @ '' images. Starting download...'')))
          (\<lambda>u.
     bind (lift (getProp photoData ''id'')) (\<lambda>photoId.
     bind (lift (getProp photoData ''createTime'')) (\<lambda>photoTime.
     bind (lift (getProp photoData ''author'')) (\<lambda>photoAuthor.
     bind (lift (getProp photoAuthor ''username'')) (\<lambda>username.
     bind (downloadImages env url photoId images photoTime username) (\<lambda>u.
     set_spinner (Succeed ''Photo slide downloaded successfully!'')))))))))))))"

text \<open>The backup API, asked when the HTML extraction left no \<^verbatim>\<open>videoData\<close>.\<close>

definition apiVideoData :: "env \<Rightarrow> string \<Rightarrow> VideoData io" where
  "apiVideoData env url =
     bind (set_spinner (Spinning ''HTML extraction failed. Switching to API backup...'')) (\<lambda>u.
     bind (getMediaInfoFromAPI env url) (\<lambda>apiData.
     bind (lift (getProp apiData ''type'')) (\<lambda>ty.
     bind (lift (if ty \<noteq> JStr ''video'' then Inr True
                 else bindE (getProp apiData ''video'') (\<lambda>video.
                      Inr (\<not> truthy (optProp video ''playAddr'')))))
          (\<lambda>invalid.
     if invalid then lift (Inl (Error ''API failed to retrieve video data''))
     else
     bind (lift (getProp apiData ''author'')) (\<lambda>apiAuthor.
     bind (lift (getProp apiAuthor ''username'')) (\<lambda>username.
     bind (lift (getProp apiData ''id'')) (\<lambda>apiId.
     bind (lift (getProp apiData ''createTime'')) (\<lambda>apiTime.
     bind (lift (getProp apiData ''video'')) (\<lambda>video.
     bind (lift (getProp video ''playAddr'')) (\<lambda>playAddr.
     bind (lift (getIndex playAddr 0)) (\<lambda>playAddr0.
       lift (Inr \<lparr>authorUniqueId = username, videoId = apiId, createTime = apiTime,
                  videoUrl = playAddr0, description = JUndefined\<rparr>))))))))))))"

text \<open>The branch for every other valid URL.\<close>

definition processVideo :: "env \<Rightarrow> string \<Rightarrow> unit io" where
  "processVideo env url =
     bind (set_spinner (Spinning ''Attempting direct HTML extraction...'')) (\<lambda>u.
     bind (\<lambda>s. case htmlExtraction env url s of (v, s') \<Rightarrow> (Inr v, s')) (\<lambda>extracted.
     bind (case extracted of
             Some videoData \<Rightarrow> lift (Inr (videoData, ''HTML''))
           | None \<Rightarrow> bind (apiVideoData env url) (\<lambda>videoData. lift (Inr (videoData, ''API''))))
          (\<lambda>(videoData, method).
     bind (set_spinner (Spinning (''Downloading video ('' @ method @ '')...''))) (\<lambda>u.
     bind (downloadVideo env videoData url) (\<lambda>fileName.
     set_spinner (Succeed ''Video downloaded successfully!''))))))"

text \<open>The outer \<^verbatim>\<open>try\<close> block.\<close>

definition processUrl_try :: "env \<Rightarrow> string \<Rightarrow> unit io" where
  "processUrl_try env url =
     (if \<not> validateURL url then set_spinner (Fail ''Invalid TikTok URL format!'')
      else if includes_str url ''/photo/'' then processPhoto env url
      else processVideo env url)"

text \<open>
  \<^verbatim>\<open>processUrl\<close>: it starts the spinner, runs the block and reports a caught error on the
  spinner (the colouring by \<^verbatim>\<open>chalk\<close> is left out). Nothing is thrown to the caller, so
  the result is the state alone.
\<close>

definition processUrl :: "env \<Rightarrow> string \<Rightarrow> state \<Rightarrow> state" where
  "processUrl env url s =
     (case processUrl_try env url (s\<lparr>spinner := Spinning ''Analyzing URL...''\<rparr>) of
        (Inl error, s') \<Rightarrow> s'\<lparr>spinner := Fail (''Error: '' @ message error)\<rparr>
      | (Inr u, s') \<Rightarrow> s')"

section \<open>When the HTML extraction does not apply\<close>

text \<open>
  The events after which the HTML extraction leaves no \<^verbatim>\<open>videoData\<close>, for the page request
  sent as request number \<open>n\<close>: the request fails; the parser throws; the rehydration element,
  its first child or the child's text is missing or empty; \<^verbatim>\<open>JSON.parse\<close> throws; the
  video detail, \<^verbatim>\<open>itemStruct\<close>, \<^verbatim>\<open>author\<close> or \<^verbatim>\<open>video\<close> is missing; an access inside
  \<^verbatim>\<open>extractVideoDataFromJson\<close> throws.
\<close>

definition itemStruct_of :: "json \<Rightarrow> json" where
  "itemStruct_of parsedJSON =
     optProp (optProp (optProp (optProp parsedJSON ''__DEFAULT_SCOPE__'') ''webapp.video-detail'')
                      ''itemInfo'') ''itemStruct''"

inductive markupNotApplicable :: "env \<Rightarrow> nat \<Rightarrow> string \<Rightarrow> bool" for env n url where
  transport: "http env n (pageRequest url) = Inl e \<Longrightarrow> markupNotApplicable env n url"
| parser: "http env n (pageRequest url) = Inr html \<Longrightarrow> select_rehydration env html = Inl e \<Longrightarrow>
     markupNotApplicable env n url"
| absent: "http env n (pageRequest url) = Inr html \<Longrightarrow> select_rehydration env html = Inr els \<Longrightarrow>
     rawJSON_of els = None \<or> rawJSON_of els = Some [] \<Longrightarrow> markupNotApplicable env n url"
| syntax_error: "http env n (pageRequest url) = Inr html \<Longrightarrow> select_rehydration env html = Inr els \<Longrightarrow>
     rawJSON_of els = Some rawJSON \<Longrightarrow> JSON_parse env rawJSON = Inl e \<Longrightarrow>
     markupNotApplicable env n url"
| missing: "http env n (pageRequest url) = Inr html \<Longrightarrow> select_rehydration env html = Inr els \<Longrightarrow>
     rawJSON_of els = Some rawJSON \<Longrightarrow> JSON_parse env rawJSON = Inr parsedJSON \<Longrightarrow>
     \<not> truthy (optProp (optProp parsedJSON ''__DEFAULT_SCOPE__'') ''webapp.video-detail'') \<or>
     \<not> truthy (itemStruct_of parsedJSON) \<or>
     \<not> truthy (optProp (itemStruct_of parsedJSON) ''author'') \<or>
     \<not> truthy (optProp (itemStruct_of parsedJSON) ''video'') \<Longrightarrow>
     markupNotApplicable env n url"
| thrown: "http env n (pageRequest url) = Inr html \<Longrightarrow> select_rehydration env html = Inr els \<Longrightarrow>
     rawJSON_of els = Some rawJSON \<Longrightarrow> extractVideoDataFromJson_try env rawJSON = Inl e \<Longrightarrow>
     markupNotApplicable env n url"

section \<open>Outcomes\<close>

text \<open>
  What a branch of \<^verbatim>\<open>processUrl\<close> leaves behind, seen from the state \<open>s\<close> it started in:
  an error and nothing recorded; an error and one \<open>Failed\<close> record with the error's message;
  or success, one \<open>Success\<close> record and a spinner that reports success.
\<close>

definition outcome :: "state \<Rightarrow> (js_error + unit) \<times> state \<Rightarrow> bool" where
  "outcome s p \<longleftrightarrow>
     (\<exists>e. fst p = Inl e \<and> downloadStats (snd p) = downloadStats s) \<or>
     (\<exists>rec e. fst p = Inl e \<and> downloadStats (snd p) = downloadStats s @ [rec] \<and>
              status rec = Failed \<and> details rec = message e) \<or>
     (\<exists>rec m. fst p = Inr () \<and> downloadStats (snd p) = downloadStats s @ [rec] \<and>
              status rec = Success \<and> spinner (snd p) = Succeed m)"

section \<open>Sample sessions\<close>

text \<open>
  Concrete environments for running the model: the requests of a session are answered
  from a list, in order, and fail once the list is used up; the page always holds the
  given nodes under the rehydration identifier, whose text parses to the given value; the
  time zone has a fixed offset; the file system never fails.
\<close>

definition init_state :: state where
  "init_state = \<lparr>downloadStats = [], requests = [], dirs = [], written = [], spinner = Spinning []\<rparr>"

definition answers :: "(js_error + json) list \<Rightarrow> nat \<Rightarrow> request \<Rightarrow> js_error + json" where
  "answers rs n r = (if n < length rs then rs ! n else Inl (JsError ''AxiosError'' ''Network Error''))"

definition sample_env :: "(js_error + json) list \<Rightarrow> dom_node list \<Rightarrow> json \<Rightarrow> int \<Rightarrow> env" where
  "sample_env rs els page tz =
     \<lparr>http = answers rs, select_rehydration = (\<lambda>html. Inr els), JSON_parse = (\<lambda>raw. Inr page),
      localTZA = (\<lambda>t. tz), mkdirSync_error = (\<lambda>d. None), writeFileSync_error = (\<lambda>d f c. None)\<rparr>"

definition rehydration :: "json \<Rightarrow> json" where
  "rehydration itemStruct =
     JObj [(''__DEFAULT_SCOPE__'',
            JObj [(''webapp.video-detail'', JObj [(''itemInfo'', JObj [(''itemStruct'', itemStruct)])])])]"

definition api_success :: "json \<Rightarrow> json" where
  "api_success result = JObj [(''status'', JStr ''success''), (''result'', result)]"

definition script_element :: "dom_node list" where
  "script_element = [ElementNode [DataNode ''{...}'']]"

definition video_url :: string where
  "video_url = ''https://vt.tiktok.com/ABCDEF/''"

definition photo_url :: string where
  "photo_url = ''https://www.tiktok.com/@bob/photo/7''"

definition sample_item :: json where
  "sample_item =
     JObj [(''id'', JStr ''123''), (''createTime'', JNum 1709596800), (''desc'', JStr ''a clip''),
           (''author'', JObj [(''uniqueId'', JStr ''ab'')]),
           (''video'', JObj [(''playAddr'', JStr ''https://v16.tiktokcdn.com/123.mp4'')])]"

definition incomplete_item :: json where
  "incomplete_item = JObj [(''author'', JObj []), (''video'', JObj [])]"

definition api_video :: "json \<Rightarrow> json \<Rightarrow> json \<Rightarrow> json list \<Rightarrow> json" where
  "api_video username videoId' createTime' urls =
     api_success (JObj [(''type'', JStr ''video''), (''id'', videoId'), (''createTime'', createTime'),
                        (''author'', JObj [(''username'', username)]),
                        (''video'', JObj [(''playAddr'', JArr urls)])])"

definition api_images :: "json \<Rightarrow> json \<Rightarrow> json \<Rightarrow> json list \<Rightarrow> json" where
  "api_images username setId createTime' urls =
     api_success (JObj [(''type'', JStr ''image''), (''id'', setId), (''createTime'', createTime'),
                        (''author'', JObj [(''username'', username)]),
                        (''images'', JArr urls)])"

section \<open>Auxiliary facts\<close>

subsection \<open>Basic facts\<close>

lemma lift_apply [simp]: "lift r s = (r, s)"
  by (simp add: lift_def)

lemma bind_eq:
  "bind m f s = (case fst (m s) of Inl e \<Rightarrow> (Inl e, snd (m s)) | Inr a \<Rightarrow> f a (snd (m s)))"
  by (cases "m s") (simp add: bind_def split: sum.splits)

lemma set_spinner_apply [simp]: "set_spinner sp s = (Inr (), s\<lparr>spinner := sp\<rparr>)"
  by (simp add: set_spinner_def)

lemma instance_request_apply [simp]:
  "snd (instance_request env r s) = s\<lparr>requests := requests s @ [r]\<rparr>"
  "fst (instance_request env r s) = http env (length (requests s)) r"
  by (simp_all add: instance_request_def)

lemma getMediaInfoFromAPI_state [simp]:
  "snd (getMediaInfoFromAPI env url s) = s\<lparr>requests := requests s @ [apiRequest url]\<rparr>"
  by (simp add: getMediaInfoFromAPI_def bind_eq split: sum.splits)

lemma getMediaInfoFromAPI_spinner [simp]:
  "fst (getMediaInfoFromAPI env url (s\<lparr>spinner := sp\<rparr>)) = fst (getMediaInfoFromAPI env url s)"
  by (simp add: getMediaInfoFromAPI_def bind_eq split: sum.splits)

lemma handleHtml_state [simp]:
  "snd (handleHtml env url s) = s\<lparr>requests := requests s @ [pageRequest url]\<rparr>"
  by (simp add: handleHtml_def instance_request_def split: sum.splits prod.splits)

lemma handleHtml_result:
  "fst (handleHtml env url s) =
     (case http env (length (requests s)) (pageRequest url) of
        Inl e \<Rightarrow> Inl (Error (if message e \<noteq> [] then message e else errorToString e))
      | Inr html \<Rightarrow> Inr html)"
  by (simp add: handleHtml_def instance_request_def split: sum.splits prod.splits)

lemma htmlExtraction_state [simp]:
  "snd (htmlExtraction env url s) = s\<lparr>requests := requests s @ [pageRequest url]\<rparr>"
proof -
  obtain r s' where h: "handleHtml env url s = (r, s')" by (cases "handleHtml env url s")
  with handleHtml_state [of env url s]
  have "s' = s\<lparr>requests := requests s @ [pageRequest url]\<rparr>" by simp
  with h show ?thesis
    by (simp add: htmlExtraction_def split: sum.splits option.splits)
qed

lemma htmlExtraction_result:
  "fst (htmlExtraction env url s) =
     (case http env (length (requests s)) (pageRequest url) of
        Inl e \<Rightarrow> None
      | Inr html \<Rightarrow>
          (case select_rehydration env html of
             Inl e \<Rightarrow> None
           | Inr els \<Rightarrow>
               (case rawJSON_of els of
                  None \<Rightarrow> None
                | Some rawJSON \<Rightarrow> if rawJSON \<noteq> [] then extractVideoDataFromJson env rawJSON else None)))"
proof -
  obtain r s' where h: "handleHtml env url s = (r, s')" by (cases "handleHtml env url s")
  with handleHtml_result [of env url s]
  have "r = (case http env (length (requests s)) (pageRequest url) of
        Inl e \<Rightarrow> Inl (Error (if message e \<noteq> [] then message e else errorToString e))
      | Inr html \<Rightarrow> Inr html)" by simp
  with h show ?thesis
    by (simp add: htmlExtraction_def split: sum.splits option.splits)
qed

lemma htmlExtraction_spinner [simp]:
  "fst (htmlExtraction env url (s\<lparr>spinner := sp\<rparr>)) = fst (htmlExtraction env url s)"
  by (simp add: htmlExtraction_result)

lemma ensureDirectoryExists_fields [simp]:
  "downloadStats (snd (ensureDirectoryExists env d s)) = downloadStats s"
  "requests (snd (ensureDirectoryExists env d s)) = requests s"
  "written (snd (ensureDirectoryExists env d s)) = written s"
  by (simp_all add: ensureDirectoryExists_def split: option.splits)

lemma writeFileSync_fields [simp]:
  "downloadStats (snd (writeFileSync env d f c s)) = downloadStats s"
  "requests (snd (writeFileSync env d f c s)) = requests s"
  by (simp_all add: writeFileSync_def split: option.splits)

subsection \<open>The image loop\<close>

lemma imagesLoop_downloadStats [simp]:
  "downloadStats (snd (imagesLoop env url imageId imageUrls timestamp authorId i n s)) = downloadStats s"
proof (induction env url imageId imageUrls timestamp authorId i n s rule: imagesLoop.induct)
  case (1 env url imageId imageUrls timestamp authorId i successCount s)
  show ?case
    apply (subst imagesLoop.simps)
    apply (auto simp: Let_def instance_request_def writeFileSync_def split: sum.splits prod.splits option.splits)
    using 1 apply (fastforce simp: instance_request_def writeFileSync_def Let_def)
    done
qed

lemma imagesLoop_requests:
  "\<exists>rest. requests (snd (imagesLoop env url imageId imageUrls timestamp authorId i n s)) = requests s @ rest"
proof (induction env url imageId imageUrls timestamp authorId i n s rule: imagesLoop.induct)
  case (1 env url imageId imageUrls timestamp authorId i successCount s)
  show ?case
    apply (subst imagesLoop.simps)
    apply (auto simp: Let_def instance_request_def writeFileSync_def split: sum.splits prod.splits option.splits)
    using 1 apply (fastforce simp: instance_request_def writeFileSync_def Let_def)
    done
qed

lemma downloadImages_requests:
  "\<exists>rest. requests (snd (downloadImages env url imageId imageUrls timestamp authorId s)) = requests s @ rest"
proof -
  obtain r1 s1 where e: "ensureDirectoryExists env IMAGE_DIR s = (r1, s1)"
    by (cases "ensureDirectoryExists env IMAGE_DIR s")
  then have s1: "requests s1 = requests s"
    using ensureDirectoryExists_fields(2) [of env IMAGE_DIR s] by simp
  obtain rest where "requests (snd (imagesLoop env url imageId imageUrls timestamp authorId 0 0 s1)) = requests s1 @ rest"
    using imagesLoop_requests by blast
  with e s1 show ?thesis
    by (cases r1) (auto simp: downloadImages_def bind_def split: sum.splits prod.splits)
qed

lemma downloadImages_outcome:
  "\<exists>rec. downloadStats (snd (downloadImages env url a b c d s)) = downloadStats s @ [rec] \<and>
     (case fst (downloadImages env url a b c d s) of
        Inl e \<Rightarrow> rec = \<lparr>type' = ''Photo'', id' = js_or a (JStr ''Unknown''),
                   author = js_or d (JStr ''Unknown''), status = Failed, details = message e\<rparr>
      | Inr u \<Rightarrow> type' rec = ''Photo Slide'' \<and> id' rec = a \<and> author rec = d \<and> status rec = Success)"
proof -
  let ?m = "bind (ensureDirectoryExists env IMAGE_DIR) (\<lambda>u. imagesLoop env url a b c d 0 0)"
  have "downloadStats (snd (?m s)) = downloadStats s"
    by (simp add: bind_eq split: sum.splits)
  then show ?thesis
    by (cases "?m s") (auto simp: downloadImages_def split: sum.splits)
qed

subsection \<open>The video download\<close>

lemma downloadVideo_requests [simp]:
  "requests (snd (downloadVideo env vd url s)) =
     requests s @ [mediaRequest (videoUrl vd) url ''arraybuffer'']"
  by (auto simp: downloadVideo_def downloadFile_def bind_eq Let_def split: sum.splits prod.splits)

lemma downloadVideo_outcome:
  "\<exists>rec. downloadStats (snd (downloadVideo env vd url s)) = downloadStats s @ [rec] \<and>
     (case fst (downloadVideo env vd url s) of
        Inl e \<Rightarrow> rec = \<lparr>type' = ''Video'', id' = js_or (videoId vd) (JStr ''Unknown''),
                   author = js_or (authorUniqueId vd) (JStr ''Unknown''), status = Failed, details = message e\<rparr>
      | Inr u \<Rightarrow> rec = \<lparr>type' = ''Video'', id' = videoId vd, author = authorUniqueId vd,
                   status = Success, details = ''MP4 Saved''\<rparr>)"
  by (auto simp: downloadVideo_def downloadFile_def bind_eq Let_def split: sum.splits prod.splits)

lemma apiVideoData_state [simp]:
  "snd (apiVideoData env url s) =
     s\<lparr>requests := requests s @ [apiRequest url],
       spinner := Spinning ''HTML extraction failed. Switching to API backup...''\<rparr>"
  by (auto simp: apiVideoData_def bind_eq split: sum.splits if_splits)

subsection \<open>Substrings\<close>

lemma includes_str_iff: "includes_str s sub \<longleftrightarrow> (\<exists>p q. s = p @ sub @ q)"
proof (induction s)
  case Nil
  show ?case by auto
next
  case (Cons c cs)
  have pre: "take (length sub) (c # cs) = sub \<longleftrightarrow> (\<exists>q. c # cs = sub @ q)"
    by (metis append_eq_conv_conj)
  show ?case
  proof
    assume "includes_str (c # cs) sub"
    then consider "take (length sub) (c # cs) = sub" | "includes_str cs sub" by auto
    then show "\<exists>p q. c # cs = p @ sub @ q"
    proof cases
      case 1
      with pre obtain q where "c # cs = sub @ q" by blast
      then have "c # cs = [] @ sub @ q" by simp
      then show ?thesis by blast
    next
      case 2
      with Cons.IH obtain p q where "cs = p @ sub @ q" by blast
      then have "c # cs = (c # p) @ sub @ q" by simp
      then show ?thesis by blast
    qed
  next
    assume "\<exists>p q. c # cs = p @ sub @ q"
    then obtain p q where pq: "c # cs = p @ sub @ q" by blast
    show "includes_str (c # cs) sub"
    proof (cases p)
      case Nil
      with pq have "c # cs = sub @ q" by simp
      with pre have "take (length sub) (c # cs) = sub" by blast
      then show ?thesis by (simp only: includes_str.simps) blast
    next
      case (Cons a p')
      with pq have "cs = p' @ sub @ q" by simp
      with Cons.IH show ?thesis by auto
    qed
  qed
qed

subsection \<open>The two branches\<close>

lemma processPhoto_requests:
  "\<exists>rest. requests (snd (processPhoto env url s)) = requests s @ apiRequest url # rest"
proof -
  have dl: "\<And>a b c d t. requests t = requests s @ [apiRequest url] \<Longrightarrow>
     \<exists>rest. requests (snd (downloadImages env url a b c d t)) = requests s @ apiRequest url # rest"
    using downloadImages_requests by (metis append.assoc append_Cons append_Nil)
  show ?thesis
    unfolding processPhoto_def
    by (auto simp: bind_eq dl split: sum.splits if_splits)
qed

lemma htmlExtraction_pair:
  "htmlExtraction env url s =
     (fst (htmlExtraction env url s), s\<lparr>requests := requests s @ [pageRequest url]\<rparr>)"
  by (metis htmlExtraction_state prod.collapse)

lemma processVideo_Some:
  assumes "fst (htmlExtraction env url s) = Some vd"
  shows "processVideo env url s =
           bind (downloadVideo env vd url) (\<lambda>fileName. set_spinner (Succeed ''Video downloaded successfully!''))
             (s\<lparr>requests := requests s @ [pageRequest url],
                spinner := Spinning ''Downloading video (HTML)...''\<rparr>)"
proof -
  let ?s0 = "s\<lparr>spinner := Spinning ''Attempting direct HTML extraction...''\<rparr>"
  have "htmlExtraction env url ?s0 = (Some vd, ?s0\<lparr>requests := requests s @ [pageRequest url]\<rparr>)"
    using assms htmlExtraction_pair [of env url ?s0] by simp
  then show ?thesis
    unfolding processVideo_def by (simp add: bind_def)
qed

lemma processVideo_None:
  assumes "fst (htmlExtraction env url s) = None"
  shows "processVideo env url s =
           bind (apiVideoData env url) (\<lambda>videoData.
           bind (set_spinner (Spinning ''Downloading video (API)...'')) (\<lambda>u.
           bind (downloadVideo env videoData url) (\<lambda>fileName.
           set_spinner (Succeed ''Video downloaded successfully!''))))
             (s\<lparr>requests := requests s @ [pageRequest url],
                spinner := Spinning ''Attempting direct HTML extraction...''\<rparr>)"
proof -
  let ?s0 = "s\<lparr>spinner := Spinning ''Attempting direct HTML extraction...''\<rparr>"
  let ?s1 = "s\<lparr>requests := requests s @ [pageRequest url],
                spinner := Spinning ''Attempting direct HTML extraction...''\<rparr>"
  have h: "htmlExtraction env url ?s0 = (None, ?s1)"
    using assms htmlExtraction_pair [of env url ?s0] by simp
  show ?thesis
    unfolding processVideo_def
    by (cases "apiVideoData env url ?s1") (simp add: bind_def h split: sum.splits)
qed

lemma processVideo_Some_requests:
  assumes "fst (htmlExtraction env url s) = Some vd"
  shows "requests (snd (processVideo env url s)) =
           requests s @ [pageRequest url, mediaRequest (videoUrl vd) url ''arraybuffer'']"
  by (simp add: processVideo_Some [OF assms] bind_eq split: sum.splits)

lemma processVideo_None_requests:
  assumes "fst (htmlExtraction env url s) = None"
  shows "\<exists>rest. requests (snd (processVideo env url s)) =
           requests s @ pageRequest url # apiRequest url # rest"
  by (simp add: processVideo_None [OF assms] bind_eq split: sum.splits)

lemma processVideo_requests:
  "\<exists>rest. requests (snd (processVideo env url s)) = requests s @ pageRequest url # rest"
  using processVideo_Some_requests [of env url s] processVideo_None_requests [of env url s]
  by (cases "fst (htmlExtraction env url s)") auto

lemma processUrl_requests:
  "requests (processUrl env url s) =
     requests (snd (processUrl_try env url (s\<lparr>spinner := Spinning ''Analyzing URL...''\<rparr>)))"
  by (simp add: processUrl_def split: prod.splits sum.splits)

lemma apiRequest_neq [simp]:
  "apiRequest url \<noteq> pageRequest u"
  "apiRequest url \<noteq> mediaRequest v r t"
  by (simp_all add: apiRequest_def pageRequest_def mediaRequest_def USER_AGENT_def
        MOBILE_USER_AGENT_def)

lemma validateURL_video_url: "validateURL video_url"
  by (simp add: video_url_def validateURL_def TIKTOK_URL_REGEX_test_def lit_def opt_def line_terminator_def)

lemma validateURL_photo_url: "validateURL photo_url"
  by (simp add: photo_url_def validateURL_def TIKTOK_URL_REGEX_test_def lit_def opt_def line_terminator_def)

lemma includes_video_url: "\<not> includes_str video_url ''/photo/''"
  by (simp add: video_url_def)

lemma includes_photo_url: "includes_str photo_url ''/photo/''"
  by (simp add: photo_url_def)

lemma sample_env_simps [simp]:
  "http (sample_env rs els page tz) = answers rs"
  "select_rehydration (sample_env rs els page tz) = (\<lambda>html. Inr els)"
  "JSON_parse (sample_env rs els page tz) = (\<lambda>raw. Inr page)"
  "localTZA (sample_env rs els page tz) = (\<lambda>t. tz)"
  "mkdirSync_error (sample_env rs els page tz) = (\<lambda>d. None)"
  "writeFileSync_error (sample_env rs els page tz) = (\<lambda>d f c. None)"
  by (simp_all add: sample_env_def)

lemma script_element_raw [simp]: "rawJSON_of script_element = Some ''{...}''"
  by (simp add: script_element_def rawJSON_of_def)

lemma sample_extraction:
  "extractVideoDataFromJson (sample_env rs els (rehydration sample_item) tz) raw =
     Some \<lparr>authorUniqueId = JStr ''ab'', videoId = JStr ''123'', createTime = JNum 1709596800,
           videoUrl = JStr ''https://v16.tiktokcdn.com/123.mp4'', description = JStr ''a clip''\<rparr>"
  by (simp add: extractVideoDataFromJson_def extractVideoDataFromJson_try_def
        rehydration_def sample_item_def bindE_def getProp_def js_gt_def)

subsection \<open>Results of the backup API and of the image loop\<close>

lemma getMediaInfoFromAPI_result:
  "fst (getMediaInfoFromAPI env url s) =
     bindE (http env (length (requests s)) (apiRequest url)) (\<lambda>response_data.
     bindE (getProp response_data ''status'') (\<lambda>st.
       if st \<noteq> JStr ''success'' then Inl (Error (''API Error: '' @ toString st))
       else getProp response_data ''result''))"
  by (simp add: getMediaInfoFromAPI_def bind_eq bindE_def split: sum.splits)

lemma api_success_result:
  "http env (length (requests s)) (apiRequest url) = Inr (api_success result) \<Longrightarrow>
   fst (getMediaInfoFromAPI env url s) = Inr result"
  by (simp add: getMediaInfoFromAPI_result bindE_def api_success_def getProp_def)

lemma imagesLoop_done:
  assumes "getProp imageUrls ''length'' = Inr len" and "\<not> js_lt (int i) len"
  shows "imagesLoop env url imageId imageUrls timestamp authorId i n s = (Inr n, s)"
  using assms by (subst imagesLoop.simps) simp

lemma imagesLoop_fetch_fails:
  assumes "getProp imageUrls ''length'' = Inr len" and "js_lt (int i) len"
    and "http env (length (requests s)) (mediaRequest (optIndex imageUrls i) url ''arraybuffer'') = Inl e"
  shows "imagesLoop env url imageId imageUrls timestamp authorId i n s =
           (Inl e, s\<lparr>requests := requests s @ [mediaRequest (optIndex imageUrls i) url ''arraybuffer''],
                     spinner := Spinning (''Downloading Image '' @ show_nat (i + 1) @ ''/'' @
                                          toString len @ ''...'')\<rparr>)"
  using assms by (subst imagesLoop.simps) (simp add: instance_request_def Let_def)

lemma imagesLoop_step:
  assumes "getProp imageUrls ''length'' = Inr len" and "js_lt (int i) len"
    and "http env (length (requests s)) (mediaRequest (optIndex imageUrls i) url ''arraybuffer'') = Inr d"
    and "writeFileSync_error env IMAGE_DIR
           (toString authorId @ ''_img_'' @ formatUploadDate (localTZA env) timestamp @ ''_'' @
            toString imageId @ ''_'' @ show_nat (i + 1) @ ''.jpg'') d = None"
  shows "imagesLoop env url imageId imageUrls timestamp authorId i n s =
           imagesLoop env url imageId imageUrls timestamp authorId (i + 1) (n + 1)
             (s\<lparr>spinner := Spinning (''Downloading Image '' @ show_nat (i + 1) @ ''/'' @
                                     toString len @ ''...''),
                requests := requests s @ [mediaRequest (optIndex imageUrls i) url ''arraybuffer''],
                written := written s @
                  [(IMAGE_DIR,
                    toString authorId @ ''_img_'' @ formatUploadDate (localTZA env) timestamp @ ''_'' @
                    toString imageId @ ''_'' @ show_nat (i + 1) @ ''.jpg'', d)]\<rparr>)"
  using assms by (subst imagesLoop.simps) (simp add: instance_request_def writeFileSync_def Let_def)

lemma show_nat_digit [simp]:
  "show_nat 0 = ''0''" "show_nat 1 = ''1''" "show_nat (Suc 0) = ''1''" "show_nat 2 = ''2''"
  "show_nat 3 = ''3''"
  by (simp_all add: show_nat.simps)

lemma downloadImages_second_fails:
  assumes dir: "IMAGE_DIR \<in> set (dirs s) \<or> mkdirSync_error env IMAGE_DIR = None"
    and img1: "http env (length (requests s)) (mediaRequest u1 url ''arraybuffer'') = Inr d1"
    and wr1: "writeFileSync_error env IMAGE_DIR
                (toString a @ ''_img_'' @ formatUploadDate (localTZA env) t @ ''_'' @
                 toString pid @ ''_1.jpg'') d1 = None"
    and img2: "http env (length (requests s) + 1) (mediaRequest u2 url ''arraybuffer'') = Inl e"
  shows "downloadImages env url pid (JArr [u1, u2, u3]) t a s =
           (Inl e,
            s\<lparr>downloadStats := downloadStats s @
                  [\<lparr>type' = ''Photo'', id' = js_or pid (JStr ''Unknown''),
                    author = js_or a (JStr ''Unknown''), status = Failed, details = message e\<rparr>],
              requests := requests s @ [mediaRequest u1 url ''arraybuffer'', mediaRequest u2 url ''arraybuffer''],
              dirs := (if IMAGE_DIR \<in> set (dirs s) then dirs s else dirs s @ [IMAGE_DIR]),
              written := written s @
                  [(IMAGE_DIR, toString a @ ''_img_'' @ formatUploadDate (localTZA env) t @ ''_'' @
                               toString pid @ ''_1.jpg'', d1)],
              spinner := Spinning ''Downloading Image 2/3...''\<rparr>)"
proof -
  have len: "getProp (JArr [u1, u2, u3]) ''length'' = Inr (JNum 3)"
    by (simp add: getProp_def)
  let ?s0 = "s\<lparr>dirs := (if IMAGE_DIR \<in> set (dirs s) then dirs s else dirs s @ [IMAGE_DIR])\<rparr>"
  have e: "ensureDirectoryExists env IMAGE_DIR s = (Inr (), ?s0)"
    using dir by (auto simp: ensureDirectoryExists_def)
  have l0: "js_lt (int 0) (JNum 3)" and l1: "js_lt (int (0 + 1)) (JNum 3)"
    by (simp_all add: js_lt_def)
  have i0: "http env (length (requests ?s0)) (mediaRequest (optIndex (JArr [u1, u2, u3]) 0) url ''arraybuffer'') = Inr d1"
    using img1 by simp
  have w0: "writeFileSync_error env IMAGE_DIR
           (toString a @ ''_img_'' @ formatUploadDate (localTZA env) t @ ''_'' @
            toString pid @ ''_'' @ show_nat (0 + 1) @ ''.jpg'') d1 = None"
    using wr1 by simp
  let ?name = "toString a @ ''_img_'' @ formatUploadDate (localTZA env) t @ ''_'' @
            toString pid @ ''_'' @ show_nat (0 + 1) @ ''.jpg''"
  let ?s1 = "?s0\<lparr>spinner := Spinning (''Downloading Image '' @ show_nat (0 + 1) @ ''/'' @
                                     toString (JNum 3) @ ''...''),
                requests := requests ?s0 @ [mediaRequest (optIndex (JArr [u1, u2, u3]) 0) url ''arraybuffer''],
                written := written ?s0 @ [(IMAGE_DIR, ?name, d1)]\<rparr>"
  have st: "imagesLoop env url pid (JArr [u1, u2, u3]) t a 0 0 ?s0 =
            imagesLoop env url pid (JArr [u1, u2, u3]) t a (0 + 1) (0 + 1) ?s1"
    by (rule imagesLoop_step [OF len l0 i0 w0])
  have i1: "http env (length (requests ?s1))
              (mediaRequest (optIndex (JArr [u1, u2, u3]) (0 + 1)) url ''arraybuffer'') = Inl e"
    using img2 by simp
  have ff: "imagesLoop env url pid (JArr [u1, u2, u3]) t a (0 + 1) (0 + 1) ?s1 =
           (Inl e, ?s1\<lparr>requests := requests ?s1 @
                          [mediaRequest (optIndex (JArr [u1, u2, u3]) (0 + 1)) url ''arraybuffer''],
                     spinner := Spinning (''Downloading Image '' @ show_nat (0 + 1 + 1) @ ''/'' @
                                          toString (JNum 3) @ ''...'')\<rparr>)"
    by (rule imagesLoop_fetch_fails [OF len l1 i1])
  have loop: "imagesLoop env url pid (JArr [u1, u2, u3]) t a 0 0 ?s0 =
           (Inl e, ?s1\<lparr>requests := requests ?s1 @
                          [mediaRequest (optIndex (JArr [u1, u2, u3]) (0 + 1)) url ''arraybuffer''],
                     spinner := Spinning (''Downloading Image '' @ show_nat (0 + 1 + 1) @ ''/'' @
                                          toString (JNum 3) @ ''...'')\<rparr>)"
    using st ff by (rule trans)
  have two: "show_nat (Suc (Suc 0)) = ''2''"
    by (simp add: show_nat.simps)
  show ?thesis
    unfolding downloadImages_def
    by (simp add: bind_def e loop two show_int_def)
qed

lemma api_images_result:
  "http env (length (requests s)) (apiRequest url) = Inr (api_images a pid t us) \<Longrightarrow>
   fst (getMediaInfoFromAPI env url s) =
     Inr (JObj [(''type'', JStr ''image''), (''id'', pid), (''createTime'', t),
                (''author'', JObj [(''username'', a)]), (''images'', JArr us)])"
  unfolding api_images_def by (rule api_success_result)

subsection \<open>Sample values\<close>

lemma date_utc: "formatUploadDate (\<lambda>t. 0) (JNum 1709596800) = ''05032024''"
  by code_simp

lemma date_new_york: "formatUploadDate (\<lambda>t. - 18000000) (JNum 1709596800) = ''04032024''"
  by code_simp

lemma answers_simps [simp]:
  "answers (r # rs) 0 q = r"
  "answers (r # rs) (Suc n) q = answers rs n q"
  "answers [] n q = Inl (JsError ''AxiosError'' ''Network Error'')"
  by (simp_all add: answers_def)

lemma init_state_simps [simp]:
  "downloadStats init_state = []" "requests init_state = []" "dirs init_state = []"
  "written init_state = []"
  by (simp_all add: init_state_def)

subsection \<open>The HTML extraction\<close>

lemma truthy_not_nullish: "truthy v \<Longrightarrow> \<not> nullish v"
  by (cases v) auto


lemma extract_try_missing:
  assumes "JSON_parse env raw = Inr j"
    and "\<not> truthy (optProp (optProp j ''__DEFAULT_SCOPE__'') ''webapp.video-detail'') \<or>
         \<not> truthy (itemStruct_of j) \<or>
         \<not> truthy (optProp (itemStruct_of j) ''author'') \<or>
         \<not> truthy (optProp (itemStruct_of j) ''video'')"
  shows "extractVideoDataFromJson env raw = None"
proof -
  have n: "\<not> nullish v" if "truthy v" for v using that by (cases v) auto
  show ?thesis
    using assms
    by (auto simp: extractVideoDataFromJson_def extractVideoDataFromJson_try_def bindE_def
          getProp_def itemStruct_of_def Let_def n split: sum.splits)
qed

lemma extract_thrown:
  "extractVideoDataFromJson_try env raw = Inl e \<Longrightarrow> extractVideoDataFromJson env raw = None"
  by (simp add: extractVideoDataFromJson_def)

lemma extract_syntax_error:
  "JSON_parse env raw = Inl e \<Longrightarrow> extractVideoDataFromJson env raw = None"
  by (simp add: extractVideoDataFromJson_def extractVideoDataFromJson_try_def bindE_def)

lemma processUrl_video_None_requests:
  assumes "validateURL url" and "\<not> includes_str url ''/photo/''"
    and "fst (htmlExtraction env url s) = None"
  shows "\<exists>rest. requests (processUrl env url s) = requests s @ pageRequest url # apiRequest url # rest"
proof -
  let ?s0 = "s\<lparr>spinner := Spinning ''Analyzing URL...''\<rparr>"
  have tr: "processUrl_try env url ?s0 = processVideo env url ?s0"
    using assms by (simp add: processUrl_try_def)
  from assms(3) have "fst (htmlExtraction env url ?s0) = None" by simp
  from processVideo_None_requests [OF this] tr show ?thesis by (simp add: processUrl_requests)
qed

lemma validateURL_sample [simp]:
  "validateURL video_url" "\<not> includes_str video_url ''/photo/''"
  "validateURL photo_url" "includes_str photo_url ''/photo/''"
  by (simp_all add: validateURL_video_url validateURL_photo_url includes_video_url includes_photo_url)

subsection \<open>Records and outcomes\<close>

lemma processPhoto_spinner [simp]: "processPhoto env url (s\<lparr>spinner := sp\<rparr>) = processPhoto env url s"
  unfolding processPhoto_def by (simp add: bind_def)

lemma processVideo_spinner [simp]: "processVideo env url (s\<lparr>spinner := sp\<rparr>) = processVideo env url s"
  unfolding processVideo_def by (simp add: bind_def)

lemma downloadVideo_fail:
  "fst (downloadVideo env vd url s) = Inl e \<Longrightarrow>
   \<exists>rec. downloadStats (snd (downloadVideo env vd url s)) = downloadStats s @ [rec] \<and>
         status rec = Failed \<and> details rec = message e"
  using downloadVideo_outcome [of env vd url s] by auto

lemma downloadVideo_ok:
  "fst (downloadVideo env vd url s) = Inr u \<Longrightarrow>
   \<exists>rec. downloadStats (snd (downloadVideo env vd url s)) = downloadStats s @ [rec] \<and>
         status rec = Success"
  using downloadVideo_outcome [of env vd url s] by auto

lemma downloadImages_fail:
  "fst (downloadImages env url a b c d s) = Inl e \<Longrightarrow>
   \<exists>rec. downloadStats (snd (downloadImages env url a b c d s)) = downloadStats s @ [rec] \<and>
         status rec = Failed \<and> details rec = message e"
  using downloadImages_outcome [of env url a b c d s] by auto

lemma downloadImages_ok:
  "fst (downloadImages env url a b c d s) = Inr u \<Longrightarrow>
   \<exists>rec. downloadStats (snd (downloadImages env url a b c d s)) = downloadStats s @ [rec] \<and>
         status rec = Success"
  using downloadImages_outcome [of env url a b c d s] by auto

lemma download_then_succeed:
  assumes "downloadStats u = downloadStats s"
    and "\<And>e. fst (m u) = Inl e \<Longrightarrow>
           \<exists>rec. downloadStats (snd (m u)) = downloadStats u @ [rec] \<and> status rec = Failed \<and> details rec = message e"
    and "\<And>a. fst (m u) = Inr a \<Longrightarrow>
           \<exists>rec. downloadStats (snd (m u)) = downloadStats u @ [rec] \<and> status rec = Success"
  shows "outcome s (bind m (\<lambda>a. set_spinner (Succeed msg)) u)"
proof (cases "fst (m u)")
  case (Inl e)
  with assms(1,2) show ?thesis
    by (auto simp: outcome_def bind_eq)
next
  case (Inr a)
  with assms(1) assms(3) [of a] show ?thesis
    by (auto simp: outcome_def bind_eq)
qed

lemma outcome_fail: "downloadStats u = downloadStats s \<Longrightarrow> outcome s (Inl e, u)"
  by (simp add: outcome_def)

lemma processPhoto_outcome: "outcome s (processPhoto env url s)"
proof -
  have dl: "outcome s (bind (downloadImages env url a b c d)
                (\<lambda>u. set_spinner (Succeed ''Photo slide downloaded successfully!'')) u)"
    if "downloadStats u = downloadStats s" for a b c d u
    using that by (intro download_then_succeed downloadImages_fail downloadImages_ok)
  show ?thesis
    unfolding processPhoto_def
    by (simp add: bind_eq [of "getMediaInfoFromAPI env url"] bind_eq [of "lift r" for r]
          bind_eq [of "set_spinner r" for r] outcome_fail dl
          split: sum.splits)
qed

lemma processVideo_outcome: "outcome s (processVideo env url s)"
proof (cases "fst (htmlExtraction env url s)")
  case (Some vd)
  show ?thesis
    unfolding processVideo_Some [OF Some]
    by (intro download_then_succeed downloadVideo_fail downloadVideo_ok) simp
next
  case None
  have dl: "outcome s (bind (downloadVideo env vd url)
                (\<lambda>u. set_spinner (Succeed ''Video downloaded successfully!'')) u)"
    if "downloadStats u = downloadStats s" for vd u
    using that by (intro download_then_succeed downloadVideo_fail downloadVideo_ok)
  show ?thesis
    unfolding processVideo_None [OF None]
    by (simp add: bind_eq [of "apiVideoData env url"] bind_eq [of "set_spinner r" for r]
          outcome_fail dl split: sum.splits)
qed

lemma processPhoto_api_fails:
  assumes "fst (getMediaInfoFromAPI env url s) = Inl e"
  shows "fst (processPhoto env url s) = Inl e \<and>
         downloadStats (snd (processPhoto env url s)) = downloadStats s"
  using assms unfolding processPhoto_def
  by (simp add: bind_eq [of "getMediaInfoFromAPI env url"] bind_eq [of "set_spinner r" for r])

lemma processUrl_try_outcome:
  "validateURL url \<Longrightarrow> outcome s (processUrl_try env url s)"
  by (simp add: processUrl_try_def processPhoto_outcome processVideo_outcome)

lemma downloadVideo_saved:
  assumes fetch: "http env (length (requests s)) (mediaRequest (videoUrl vd) url ''arraybuffer'') = Inr buf"
    and dir: "VIDEO_DIR \<in> set (dirs s) \<or> mkdirSync_error env VIDEO_DIR = None"
    and wr: "writeFileSync_error env VIDEO_DIR
               (toString (authorUniqueId vd) @ ''_vid_'' @
                formatUploadDate (localTZA env) (createTime vd) @ ''_'' @
                toString (videoId vd) @ ''.mp4'') buf = None"
  shows "fst (downloadVideo env vd url s) =
           Inr (toString (authorUniqueId vd) @ ''_vid_'' @
                formatUploadDate (localTZA env) (createTime vd) @ ''_'' @
                toString (videoId vd) @ ''.mp4'') \<and>
         written (snd (downloadVideo env vd url s)) =
           written s @ [(VIDEO_DIR,
                         toString (authorUniqueId vd) @ ''_vid_'' @
                         formatUploadDate (localTZA env) (createTime vd) @ ''_'' @
                         toString (videoId vd) @ ''.mp4'', buf)]"
  using assms
  by (auto simp: downloadVideo_def downloadFile_def bind_def instance_request_def
        ensureDirectoryExists_def writeFileSync_def Let_def)

lemma formatUploadDate_valid:
  assumes "\<bar>n * 1000\<bar> \<le> 8640000000000000"
  shows "formatUploadDate tza (JNum n) =
           (case civil_from_days ((n * 1000 + tza (n * 1000)) div 86400000) of
              (y, m, d) \<Rightarrow> padStart2 (show_int d) @ padStart2 (show_int m) @ show_int y)"
  using assms
  by (simp add: formatUploadDate_def newDate_def getDate_def getMonth_def getFullYear_def
        numToString_def localDay_def Let_def split_def)

subsection \<open>Running a sample session\<close>

lemmas run_defs =
  processUrl_def processUrl_try_def processVideo_def processPhoto_def apiVideoData_def
  htmlExtraction_def handleHtml_def getMediaInfoFromAPI_def downloadVideo_def downloadFile_def
  downloadImages_def instance_request_def ensureDirectoryExists_def writeFileSync_def
  bind_def bindE_def getProp_def getIndex_def api_video_def api_images_def api_success_def
  js_or_def Let_def Error_def

lemma date_year_987: "formatUploadDate (\<lambda>t. 0) (JNum (- 31000000000)) = ''2508987''"
  by code_simp

subsection \<open>What a started download records\<close>

lemma downloadVideo_spinner [simp]:
  "fst (downloadVideo env vd url (s\<lparr>spinner := sp\<rparr>)) = fst (downloadVideo env vd url s)"
  by (simp add: downloadVideo_def downloadFile_def bind_def instance_request_def
        ensureDirectoryExists_def writeFileSync_def Let_def split: sum.splits option.splits)

lemma apiVideoData_spinner [simp]:
  "fst (apiVideoData env url (s\<lparr>spinner := sp\<rparr>)) = fst (apiVideoData env url s)"
  unfolding apiVideoData_def by (simp add: bind_def)

lemma imagesLoop_spinner:
  "fst (imagesLoop env url a b c d i n (s\<lparr>spinner := sp\<rparr>)) = fst (imagesLoop env url a b c d i n s)"
  by (subst imagesLoop.simps, subst (2) imagesLoop.simps)
     (simp add: Let_def instance_request_def split: sum.splits)

lemma downloadImages_fst:
  "fst (downloadImages env url a b c d s) =
     (case fst (bind (ensureDirectoryExists env IMAGE_DIR) (\<lambda>u. imagesLoop env url a b c d 0 0) s) of
        Inl e \<Rightarrow> Inl e
      | Inr n \<Rightarrow> Inr ())"
  by (simp add: downloadImages_def split: prod.splits sum.splits)

lemma downloadImages_spinner [simp]:
  "fst (downloadImages env url a b c d (s\<lparr>spinner := sp\<rparr>)) = fst (downloadImages env url a b c d s)"
proof -
  have e: "ensureDirectoryExists env IMAGE_DIR (s\<lparr>spinner := sp\<rparr>) =
           (fst (ensureDirectoryExists env IMAGE_DIR s),
            (snd (ensureDirectoryExists env IMAGE_DIR s))\<lparr>spinner := sp\<rparr>)"
    by (simp add: ensureDirectoryExists_def split: option.splits)
  have "fst (bind (ensureDirectoryExists env IMAGE_DIR) (\<lambda>u. imagesLoop env url a b c d 0 0)
              (s\<lparr>spinner := sp\<rparr>)) =
        fst (bind (ensureDirectoryExists env IMAGE_DIR) (\<lambda>u. imagesLoop env url a b c d 0 0) s)"
    by (simp add: bind_eq e imagesLoop_spinner split: sum.splits)
  then show ?thesis by (simp only: downloadImages_fst)
qed

lemma processUrl_video:
  assumes "validateURL url" and "\<not> includes_str url ''/photo/''"
  shows "processUrl env url s =
           (case processVideo env url s of
              (Inl error, s') \<Rightarrow> s'\<lparr>spinner := Fail (''Error: '' @ message error)\<rparr>
            | (Inr u, s') \<Rightarrow> s')"
  using assms by (simp add: processUrl_def processUrl_try_def)

lemma processUrl_photo:
  assumes "validateURL url" and "includes_str url ''/photo/''"
  shows "processUrl env url s =
           (case processPhoto env url s of
              (Inl error, s') \<Rightarrow> s'\<lparr>spinner := Fail (''Error: '' @ message error)\<rparr>
            | (Inr u, s') \<Rightarrow> s')"
  using assms by (simp add: processUrl_def processUrl_try_def)

lemma downloadVideo_stats:
  "downloadStats (snd (downloadVideo env vd url s)) =
     downloadStats s @
       [case fst (downloadVideo env vd url s) of
          Inl e \<Rightarrow> \<lparr>type' = ''Video'', id' = js_or (videoId vd) (JStr ''Unknown''),
                     author = js_or (authorUniqueId vd) (JStr ''Unknown''), status = Failed,
                     details = message e\<rparr>
        | Inr f \<Rightarrow> \<lparr>type' = ''Video'', id' = videoId vd, author = authorUniqueId vd,
                     status = Success, details = ''MP4 Saved''\<rparr>]"
  using downloadVideo_outcome [of env vd url s]
  by (auto split: sum.splits)

text \<open>The end of the video branch: the download, then the report of success.\<close>

lemma video_download_result:
  assumes "downloadStats u = downloadStats s"
  shows "(case bind (downloadVideo env vd url)
                (\<lambda>fileName. set_spinner (Succeed ''Video downloaded successfully!'')) u of
            (Inl error, s') \<Rightarrow> s'\<lparr>spinner := Fail (''Error: '' @ message error)\<rparr>
          | (Inr x, s') \<Rightarrow> s') = t \<Longrightarrow>
         downloadStats t =
           downloadStats s @
             [case fst (downloadVideo env vd url u) of
                Inl e \<Rightarrow> \<lparr>type' = ''Video'', id' = js_or (videoId vd) (JStr ''Unknown''),
                           author = js_or (authorUniqueId vd) (JStr ''Unknown''), status = Failed,
                           details = message e\<rparr>
              | Inr f \<Rightarrow> \<lparr>type' = ''Video'', id' = videoId vd, author = authorUniqueId vd,
                           status = Success, details = ''MP4 Saved''\<rparr>] \<and>
         spinner t =
           (case fst (downloadVideo env vd url u) of
              Inl e \<Rightarrow> Fail (''Error: '' @ message e)
            | Inr f \<Rightarrow> Succeed ''Video downloaded successfully!'')"
  using assms downloadVideo_stats [of env vd url u]
  by (auto simp: bind_eq split: sum.splits)

lemma processUrl_html_download:
  assumes "validateURL url" and "\<not> includes_str url ''/photo/''"
    and "fst (htmlExtraction env url s) = Some vd"
  shows "downloadStats (processUrl env url s) =
           downloadStats s @
             [case fst (downloadVideo env vd url (s\<lparr>requests := requests s @ [pageRequest url]\<rparr>)) of
                Inl e \<Rightarrow> \<lparr>type' = ''Video'', id' = js_or (videoId vd) (JStr ''Unknown''),
                           author = js_or (authorUniqueId vd) (JStr ''Unknown''), status = Failed,
                           details = message e\<rparr>
              | Inr f \<Rightarrow> \<lparr>type' = ''Video'', id' = videoId vd, author = authorUniqueId vd,
                           status = Success, details = ''MP4 Saved''\<rparr>] \<and>
         spinner (processUrl env url s) =
           (case fst (downloadVideo env vd url (s\<lparr>requests := requests s @ [pageRequest url]\<rparr>)) of
              Inl e \<Rightarrow> Fail (''Error: '' @ message e)
            | Inr f \<Rightarrow> Succeed ''Video downloaded successfully!'')"
proof -
  let ?u = "s\<lparr>requests := requests s @ [pageRequest url],
              spinner := Spinning ''Downloading video (HTML)...''\<rparr>"
  have "downloadStats ?u = downloadStats s" by simp
  from video_download_result [OF this refl, of env vd url]
  show ?thesis
    by (simp add: processUrl_video [OF assms(1,2)] processVideo_Some [OF assms(3)])
qed

lemma processUrl_api_download:
  assumes "validateURL url" and "\<not> includes_str url ''/photo/''"
    and "fst (htmlExtraction env url s) = None"
    and "fst (apiVideoData env url (s\<lparr>requests := requests s @ [pageRequest url]\<rparr>)) = Inr vd"
  shows "downloadStats (processUrl env url s) =
           downloadStats s @
             [case fst (downloadVideo env vd url
                          (s\<lparr>requests := requests s @ [pageRequest url, apiRequest url]\<rparr>)) of
                Inl e \<Rightarrow> \<lparr>type' = ''Video'', id' = js_or (videoId vd) (JStr ''Unknown''),
                           author = js_or (authorUniqueId vd) (JStr ''Unknown''), status = Failed,
                           details = message e\<rparr>
              | Inr f \<Rightarrow> \<lparr>type' = ''Video'', id' = videoId vd, author = authorUniqueId vd,
                           status = Success, details = ''MP4 Saved''\<rparr>] \<and>
         spinner (processUrl env url s) =
           (case fst (downloadVideo env vd url
                        (s\<lparr>requests := requests s @ [pageRequest url, apiRequest url]\<rparr>)) of
              Inl e \<Rightarrow> Fail (''Error: '' @ message e)
            | Inr f \<Rightarrow> Succeed ''Video downloaded successfully!'')"
proof -
  let ?s1 = "s\<lparr>requests := requests s @ [pageRequest url],
                spinner := Spinning ''Attempting direct HTML extraction...''\<rparr>"
  let ?u = "s\<lparr>requests := requests s @ [pageRequest url, apiRequest url],
              spinner := Spinning ''Downloading video (API)...''\<rparr>"
  have a: "fst (apiVideoData env url ?s1) = Inr vd"
    using assms(4) by simp
  have "downloadStats ?u = downloadStats s" by simp
  from video_download_result [OF this refl, of env vd url]
  show ?thesis
    by (simp add: processUrl_video [OF assms(1,2)] processVideo_None [OF assms(3)]
          bind_eq [of "apiVideoData env url"] bind_eq [of "set_spinner r" for r] assms(4))
qed

lemma processUrl_api_fails:
  assumes "validateURL url" and "\<not> includes_str url ''/photo/''"
    and "fst (htmlExtraction env url s) = None"
    and "fst (apiVideoData env url (s\<lparr>requests := requests s @ [pageRequest url]\<rparr>)) = Inl e"
  shows "downloadStats (processUrl env url s) = downloadStats s \<and>
         spinner (processUrl env url s) = Fail (''Error: '' @ message e)"
proof -
  let ?s1 = "s\<lparr>requests := requests s @ [pageRequest url],
                spinner := Spinning ''Attempting direct HTML extraction...''\<rparr>"
  have a: "fst (apiVideoData env url ?s1) = Inl e"
    using assms(4) by simp
  show ?thesis
    by (simp add: processUrl_video [OF assms(1,2)] processVideo_None [OF assms(3)]
          bind_eq [of "apiVideoData env url"] assms(4))
qed

lemma optProp_not_nullish: "optProp v k \<noteq> JUndefined \<Longrightarrow> \<not> nullish v"
  by (cases v) auto

lemma processPhoto_resolved:
  assumes "fst (getMediaInfoFromAPI env url s) = Inr photoData"
    and "optProp photoData ''type'' = JStr ''image''"
    and "truthy (optProp photoData ''images'')"
    and "\<not> nullish (optProp photoData ''author'')"
  shows "processPhoto env url s =
           bind (downloadImages env url (optProp photoData ''id'') (optProp photoData ''images'')
                   (optProp photoData ''createTime'')
                   (optProp (optProp photoData ''author'') ''username''))
                (\<lambda>u. set_spinner (Succeed ''Photo slide downloaded successfully!''))
                (s\<lparr>requests := requests s @ [apiRequest url],
                   spinner := Spinning (''Found '' @
                                toString (optProp (optProp photoData ''images'') ''length'') @
                                '' images. Starting download...'')\<rparr>)"
proof -
  have n: "\<not> nullish photoData"
    using assms(2) by (intro optProp_not_nullish [of _ "''type''"]) simp
  have i: "\<not> nullish (optProp photoData ''images'')"
    using assms(3) by (rule truthy_not_nullish)
  show ?thesis
    unfolding processPhoto_def
    using assms n i
    by (simp add: bind_eq [of "getMediaInfoFromAPI env url"] bind_eq [of "lift r" for r]
          bind_eq [of "set_spinner r" for r] getProp_def bindE_def)
qed

lemma processPhoto_unresolved:
  assumes "fst (getMediaInfoFromAPI env url s) = Inr photoData"
    and "optProp photoData ''type'' \<noteq> JStr ''image'' \<or> \<not> truthy (optProp photoData ''images'') \<or>
         nullish (optProp photoData ''author'')"
  shows "\<exists>e. fst (processPhoto env url s) = Inl e \<and>
             downloadStats (snd (processPhoto env url s)) = downloadStats s"
  unfolding processPhoto_def
  using assms
  by (auto simp: bind_eq [of "getMediaInfoFromAPI env url"] bind_eq [of "lift r" for r]
        bind_eq [of "set_spinner r" for r] getProp_def bindE_def)

lemma processUrl_photo_unresolved:
  assumes "validateURL url" and "includes_str url ''/photo/''"
    and "fst (getMediaInfoFromAPI env url s) = Inr photoData"
    and "optProp photoData ''type'' \<noteq> JStr ''image'' \<or> \<not> truthy (optProp photoData ''images'') \<or>
         nullish (optProp photoData ''author'')"
  shows "downloadStats (processUrl env url s) = downloadStats s \<and>
         (\<exists>m. spinner (processUrl env url s) = Fail m)"
  using processPhoto_unresolved [OF assms(3,4)]
  by (cases "processPhoto env url s") (auto simp: processUrl_photo [OF assms(1,2)])

lemma processUrl_photo_download:
  assumes "validateURL url" and "includes_str url ''/photo/''"
    and "fst (getMediaInfoFromAPI env url s) = Inr photoData"
    and "optProp photoData ''type'' = JStr ''image''"
    and "truthy (optProp photoData ''images'')"
    and "\<not> nullish (optProp photoData ''author'')"
  shows "\<exists>rec. downloadStats (processUrl env url s) = downloadStats s @ [rec] \<and>
           (case fst (downloadImages env url (optProp photoData ''id'') (optProp photoData ''images'')
                        (optProp photoData ''createTime'')
                        (optProp (optProp photoData ''author'') ''username'')
                        (s\<lparr>requests := requests s @ [apiRequest url]\<rparr>)) of
              Inl e \<Rightarrow>
                rec = \<lparr>type' = ''Photo'', id' = js_or (optProp photoData ''id'') (JStr ''Unknown''),
                       author = js_or (optProp (optProp photoData ''author'') ''username'')
                                      (JStr ''Unknown''),
                       status = Failed, details = message e\<rparr> \<and>
                spinner (processUrl env url s) = Fail (''Error: '' @ message e)
            | Inr x \<Rightarrow>
                type' rec = ''Photo Slide'' \<and> id' rec = optProp photoData ''id'' \<and>
                author rec = optProp (optProp photoData ''author'') ''username'' \<and>
                status rec = Success \<and>
                spinner (processUrl env url s) = Succeed ''Photo slide downloaded successfully!'')"
proof -
  let ?u = "s\<lparr>requests := requests s @ [apiRequest url],
              spinner := Spinning (''Found '' @
                           toString (optProp (optProp photoData ''images'') ''length'') @
                           '' images. Starting download...'')\<rparr>"
  let ?dl = "downloadImages env url (optProp photoData ''id'') (optProp photoData ''images'')
               (optProp photoData ''createTime'') (optProp (optProp photoData ''author'') ''username'')"
  obtain rec where rec: "downloadStats (snd (?dl ?u)) = downloadStats ?u @ [rec]"
    "case fst (?dl ?u) of
        Inl e \<Rightarrow> rec = \<lparr>type' = ''Photo'', id' = js_or (optProp photoData ''id'') (JStr ''Unknown''),
                   author = js_or (optProp (optProp photoData ''author'') ''username'') (JStr ''Unknown''),
                   status = Failed, details = message e\<rparr>
      | Inr x \<Rightarrow> type' rec = ''Photo Slide'' \<and> id' rec = optProp photoData ''id'' \<and>
                 author rec = optProp (optProp photoData ''author'') ''username'' \<and> status rec = Success"
    using downloadImages_outcome [of env url _ _ _ _ ?u] by blast
  have f: "fst (?dl ?u) = fst (?dl (s\<lparr>requests := requests s @ [apiRequest url]\<rparr>))"
    by simp
  show ?thesis
  proof (cases "fst (?dl ?u)")
    case (Inl e)
    with rec f show ?thesis
      by (intro exI [of _ rec])
         (simp add: processUrl_photo [OF assms(1,2)] processPhoto_resolved [OF assms(3-6)] bind_eq)
  next
    case (Inr x)
    with rec f show ?thesis
      by (intro exI [of _ rec])
         (simp add: processUrl_photo [OF assms(1,2)] processPhoto_resolved [OF assms(3-6)] bind_eq)
  qed
qed

section \<open>The claims\<close>

text \<open>
  C1. \<^verbatim>\<open>processUrl\<close> never throws, and what it appends to \<^verbatim>\<open>downloadStats\<close> is settled
  by how far it got. It appends at most one record, and a record agrees with the report
  on the spinner. It appends none when the URL is invalid and none when resolution fails
  before a download starts: the backup API fails or its payload is refused (for a photo
  set, or for a video after the HTML extraction gave nothing); the error is then reported
  on the spinner only. Once a download is started, by \<^verbatim>\<open>downloadImages\<close> for a resolved
  photo set or by \<^verbatim>\<open>downloadVideo\<close> for a descriptor from the page or from the API, it
  appends exactly one record: \<open>Success\<close> when the download returns, and when it throws a
  \<open>Failed\<close> record whose details are the message of the error, which is reported on the
  spinner and thrown no further.
\<close>

theorem C1_records_per_invocation:
  "(\<exists>rs. downloadStats (processUrl env url s) = downloadStats s @ rs \<and> length rs \<le> 1 \<and>
      (\<forall>r \<in> set rs. status r = Failed \<longrightarrow>
         spinner (processUrl env url s) = Fail (''Error: '' @ details r)) \<and>
      (\<forall>r \<in> set rs. status r = Success \<longrightarrow> (\<exists>m. spinner (processUrl env url s) = Succeed m)) \<and>
      (rs = [] \<longrightarrow> (\<exists>m. spinner (processUrl env url s) = Fail m))) \<and>
   (\<not> validateURL url \<longrightarrow> downloadStats (processUrl env url s) = downloadStats s) \<and>
   (validateURL url \<and> includes_str url ''/photo/'' \<longrightarrow>
      (\<forall>e. fst (getMediaInfoFromAPI env url s) = Inl e \<longrightarrow>
         downloadStats (processUrl env url s) = downloadStats s \<and>
         spinner (processUrl env url s) = Fail (''Error: '' @ message e)) \<and>
      (\<forall>photoData. fst (getMediaInfoFromAPI env url s) = Inr photoData \<longrightarrow>
         (if optProp photoData ''type'' = JStr ''image'' \<and> truthy (optProp photoData ''images'') \<and>
             \<not> nullish (optProp photoData ''author'')
          then \<exists>rec. downloadStats (processUrl env url s) = downloadStats s @ [rec] \<and>
                 (case fst (downloadImages env url (optProp photoData ''id'')
                              (optProp photoData ''images'') (optProp photoData ''createTime'')
                              (optProp (optProp photoData ''author'') ''username'')
                              (s\<lparr>requests := requests s @ [apiRequest url]\<rparr>)) of
                    Inl e \<Rightarrow>
                      rec = \<lparr>type' = ''Photo'',
                             id' = js_or (optProp photoData ''id'') (JStr ''Unknown''),
                             author = js_or (optProp (optProp photoData ''author'') ''username'')
                                            (JStr ''Unknown''),
                             status = Failed, details = message e\<rparr> \<and>
                      spinner (processUrl env url s) = Fail (''Error: '' @ message e)
                  | Inr x \<Rightarrow>
                      type' rec = ''Photo Slide'' \<and> id' rec = optProp photoData ''id'' \<and>
                      author rec = optProp (optProp photoData ''author'') ''username'' \<and>
                      status rec = Success \<and>
                      spinner (processUrl env url s) =
                        Succeed ''Photo slide downloaded successfully!'')
          else downloadStats (processUrl env url s) = downloadStats s \<and>
               (\<exists>m. spinner (processUrl env url s) = Fail m)))) \<and>
   (validateURL url \<and> \<not> includes_str url ''/photo/'' \<longrightarrow>
      (\<forall>vd. fst (htmlExtraction env url s) = Some vd \<longrightarrow>
         downloadStats (processUrl env url s) =
           downloadStats s @
             [case fst (downloadVideo env vd url (s\<lparr>requests := requests s @ [pageRequest url]\<rparr>)) of
                Inl e \<Rightarrow> \<lparr>type' = ''Video'', id' = js_or (videoId vd) (JStr ''Unknown''),
                           author = js_or (authorUniqueId vd) (JStr ''Unknown''), status = Failed,
                           details = message e\<rparr>
              | Inr f \<Rightarrow> \<lparr>type' = ''Video'', id' = videoId vd, author = authorUniqueId vd,
                           status = Success, details = ''MP4 Saved''\<rparr>] \<and>
         spinner (processUrl env url s) =
           (case fst (downloadVideo env vd url (s\<lparr>requests := requests s @ [pageRequest url]\<rparr>)) of
              Inl e \<Rightarrow> Fail (''Error: '' @ message e)
            | Inr f \<Rightarrow> Succeed ''Video downloaded successfully!'')) \<and>
      (fst (htmlExtraction env url s) = None \<longrightarrow>
         (\<forall>e. fst (apiVideoData env url (s\<lparr>requests := requests s @ [pageRequest url]\<rparr>)) = Inl e \<longrightarrow>
            downloadStats (processUrl env url s) = downloadStats s \<and>
            spinner (processUrl env url s) = Fail (''Error: '' @ message e)) \<and>
         (\<forall>vd. fst (apiVideoData env url (s\<lparr>requests := requests s @ [pageRequest url]\<rparr>)) = Inr vd \<longrightarrow>
            downloadStats (processUrl env url s) =
              downloadStats s @
                [case fst (downloadVideo env vd url
                             (s\<lparr>requests := requests s @ [pageRequest url, apiRequest url]\<rparr>)) of
                   Inl e \<Rightarrow> \<lparr>type' = ''Video'', id' = js_or (videoId vd) (JStr ''Unknown''),
                              author = js_or (authorUniqueId vd) (JStr ''Unknown''), status = Failed,
                              details = message e\<rparr>
                 | Inr f \<Rightarrow> \<lparr>type' = ''Video'', id' = videoId vd, author = authorUniqueId vd,
                              status = Success, details = ''MP4 Saved''\<rparr>] \<and>
            spinner (processUrl env url s) =
              (case fst (downloadVideo env vd url
                           (s\<lparr>requests := requests s @ [pageRequest url, apiRequest url]\<rparr>)) of
                 Inl e \<Rightarrow> Fail (''Error: '' @ message e)
               | Inr f \<Rightarrow> Succeed ''Video downloaded successfully!''))))"
  (is "?general \<and> ?invalid \<and> ?photo \<and> ?video")
proof -
  let ?s0 = "s\<lparr>spinner := Spinning ''Analyzing URL...''\<rparr>"
  have inv: "downloadStats (processUrl env url s) = downloadStats s \<and>
             spinner (processUrl env url s) = Fail ''Invalid TikTok URL format!''"
    if "\<not> validateURL url"
    using that by (simp add: processUrl_def processUrl_try_def)
  have a: ?general
  proof (cases "validateURL url")
    case False
    with inv show ?thesis by (intro exI [of _ "[]"]) simp
  next
    case True
    obtain r t where p: "processUrl_try env url ?s0 = (r, t)"
      by (cases "processUrl_try env url ?s0")
    from processUrl_try_outcome [OF True, of ?s0 env] p
    consider
      (fail) e where "r = Inl e" "downloadStats t = downloadStats s"
    | (failed) rec e where "r = Inl e" "downloadStats t = downloadStats s @ [rec]"
                          "status rec = Failed" "details rec = message e"
    | (ok) rec m where "r = Inr ()" "downloadStats t = downloadStats s @ [rec]"
                      "status rec = Success" "spinner t = Succeed m"
      by (auto simp: outcome_def)
    then show ?thesis
    proof cases
      case fail
      with p show ?thesis by (intro exI [of _ "[]"]) (simp add: processUrl_def)
    next
      case failed
      with p show ?thesis by (intro exI [of _ "[rec]"]) (simp add: processUrl_def)
    next
      case ok
      with p show ?thesis by (intro exI [of _ "[rec]"]) (simp add: processUrl_def)
    qed
  qed
  have b: ?invalid using inv by blast
  have c: ?photo
  proof (intro impI conjI allI)
    fix e
    assume v: "validateURL url \<and> includes_str url ''/photo/''"
      and g: "fst (getMediaInfoFromAPI env url s) = Inl e"
    from v processPhoto_api_fails [OF g]
    show "downloadStats (processUrl env url s) = downloadStats s"
      and "spinner (processUrl env url s) = Fail (''Error: '' @ message e)"
      by (cases "processPhoto env url s"; simp add: processUrl_def processUrl_try_def)+
  next
    fix photoData
    assume v: "validateURL url \<and> includes_str url ''/photo/''"
      and g: "fst (getMediaInfoFromAPI env url s) = Inr photoData"
    from v have v1: "validateURL url" and v2: "includes_str url ''/photo/''" by simp_all
    show "if optProp photoData ''type'' = JStr ''image'' \<and> truthy (optProp photoData ''images'') \<and>
             \<not> nullish (optProp photoData ''author'')
          then \<exists>rec. downloadStats (processUrl env url s) = downloadStats s @ [rec] \<and>
                 (case fst (downloadImages env url (optProp photoData ''id'')
                              (optProp photoData ''images'') (optProp photoData ''createTime'')
                              (optProp (optProp photoData ''author'') ''username'')
                              (s\<lparr>requests := requests s @ [apiRequest url]\<rparr>)) of
                    Inl e \<Rightarrow>
                      rec = \<lparr>type' = ''Photo'',
                             id' = js_or (optProp photoData ''id'') (JStr ''Unknown''),
                             author = js_or (optProp (optProp photoData ''author'') ''username'')
                                            (JStr ''Unknown''),
                             status = Failed, details = message e\<rparr> \<and>
                      spinner (processUrl env url s) = Fail (''Error: '' @ message e)
                  | Inr x \<Rightarrow>
                      type' rec = ''Photo Slide'' \<and> id' rec = optProp photoData ''id'' \<and>
                      author rec = optProp (optProp photoData ''author'') ''username'' \<and>
                      status rec = Success \<and>
                      spinner (processUrl env url s) =
                        Succeed ''Photo slide downloaded successfully!'')
          else downloadStats (processUrl env url s) = downloadStats s \<and>
               (\<exists>m. spinner (processUrl env url s) = Fail m)"
    proof (cases "optProp photoData ''type'' = JStr ''image'' \<and> truthy (optProp photoData ''images'') \<and>
             \<not> nullish (optProp photoData ''author'')")
      case True
      then have t: "optProp photoData ''type'' = JStr ''image''" "truthy (optProp photoData ''images'')"
        "\<not> nullish (optProp photoData ''author'')" by simp_all
      from processUrl_photo_download [OF v1 v2 g t] show ?thesis
        unfolding if_P [OF True] .
    next
      case False
      then have "optProp photoData ''type'' \<noteq> JStr ''image'' \<or> \<not> truthy (optProp photoData ''images'') \<or>
         nullish (optProp photoData ''author'')" by blast
      from processUrl_photo_unresolved [OF v1 v2 g this] show ?thesis
        unfolding if_not_P [OF False] .
    qed
  qed
  have d: ?video
    using processUrl_html_download [of url env s] processUrl_api_fails [of url env s]
      processUrl_api_download [of url env s]
    by blast
  from a b c d show ?thesis by blast
qed

theorem C1_records_per_invocation_witness:
  "fst (htmlExtraction (sample_env [Inr (JStr ''<html>''),
                                    Inl (JsError ''AxiosError'' ''Request failed with status code 403'')]
                          script_element (rehydration sample_item) 0) video_url init_state) =
     Some \<lparr>authorUniqueId = JStr ''ab'', videoId = JStr ''123'', createTime = JNum 1709596800,
           videoUrl = JStr ''https://v16.tiktokcdn.com/123.mp4'', description = JStr ''a clip''\<rparr> \<and>
   downloadStats (processUrl (sample_env [Inr (JStr ''<html>''),
                                    Inl (JsError ''AxiosError'' ''Request failed with status code 403'')]
                          script_element (rehydration sample_item) 0) video_url init_state) =
     [\<lparr>type' = ''Video'', id' = JStr ''123'', author = JStr ''ab'', status = Failed,
       details = ''Request failed with status code 403''\<rparr>] \<and>
   spinner (processUrl (sample_env [Inr (JStr ''<html>''),
                                    Inl (JsError ''AxiosError'' ''Request failed with status code 403'')]
                          script_element (rehydration sample_item) 0) video_url init_state) =
     Fail ''Error: Request failed with status code 403''"
proof -
  let ?env = "sample_env [Inr (JStr ''<html>''),
                          Inl (JsError ''AxiosError'' ''Request failed with status code 403'')]
                script_element (rehydration sample_item) 0"
  let ?vd = "\<lparr>authorUniqueId = JStr ''ab'', videoId = JStr ''123'', createTime = JNum 1709596800,
           videoUrl = JStr ''https://v16.tiktokcdn.com/123.mp4'', description = JStr ''a clip''\<rparr>"
  have h: "fst (htmlExtraction ?env video_url init_state) = Some ?vd"
    by (simp add: htmlExtraction_result sample_extraction)
  have f: "fst (downloadVideo ?env ?vd video_url
                  (init_state\<lparr>requests := requests init_state @ [pageRequest video_url]\<rparr>)) =
           Inl (JsError ''AxiosError'' ''Request failed with status code 403'')"
    by (simp add: downloadVideo_def downloadFile_def bind_def instance_request_def)
  from C1_records_per_invocation [of ?env video_url init_state] h
  have "downloadStats (processUrl ?env video_url init_state) =
           downloadStats init_state @
             [case fst (downloadVideo ?env ?vd video_url
                          (init_state\<lparr>requests := requests init_state @ [pageRequest video_url]\<rparr>)) of
                Inl e \<Rightarrow> \<lparr>type' = ''Video'', id' = js_or (videoId ?vd) (JStr ''Unknown''),
                           author = js_or (authorUniqueId ?vd) (JStr ''Unknown''), status = Failed,
                           details = message e\<rparr>
              | Inr f \<Rightarrow> \<lparr>type' = ''Video'', id' = videoId ?vd, author = authorUniqueId ?vd,
                           status = Success, details = ''MP4 Saved''\<rparr>] \<and>
         spinner (processUrl ?env video_url init_state) =
           (case fst (downloadVideo ?env ?vd video_url
                        (init_state\<lparr>requests := requests init_state @ [pageRequest video_url]\<rparr>)) of
              Inl e \<Rightarrow> Fail (''Error: '' @ message e)
            | Inr f \<Rightarrow> Succeed ''Video downloaded successfully!'')"
    using validateURL_video_url includes_video_url by blast
  with h f show ?thesis by (simp add: js_or_def)
qed

text \<open>
  One record for every invocation is too much to ask: an invalid URL, and a photo-set URL
  while the network is down, both leave \<^verbatim>\<open>downloadStats\<close> empty.
\<close>

theorem C1_counterexample:
  "downloadStats (processUrl (sample_env [] [] JNull 0) ''ftp://tiktok.com/@a/video/1'' init_state) = [] \<and>
   downloadStats (processUrl (sample_env [] [] JNull 0) photo_url init_state) = [] \<and>
   spinner (processUrl (sample_env [] [] JNull 0) photo_url init_state) = Fail ''Error: Network Error''"
proof -
  have "\<not> validateURL ''ftp://tiktok.com/@a/video/1''"
    by (simp add: validateURL_def TIKTOK_URL_REGEX_test_def lit_def opt_def)
  then show ?thesis
    by (simp add: run_defs)
qed

text \<open>
  C2. A photo set must resolve only when the payload has type \<^verbatim>\<open>image\<close> and at least one
  image URL. The guard \<^verbatim>\<open>!photoData.images\<close> lets an empty array pass (an array is
  truthy): for the payload below the loop runs zero times, nothing is written, and the
  session records a \<open>Success\<close> with details \<^verbatim>\<open>0 Images\<close>.
\<close>

theorem C2_empty_images_recorded_as_success:
  "downloadStats (processUrl
      (sample_env [Inr (api_images (JStr ''bob'') (JStr ''7'') (JNum 0) [])] [] JNull 0)
      photo_url init_state) =
     [\<lparr>type' = ''Photo Slide'', id' = JStr ''7'', author = JStr ''bob'', status = Success,
       details = ''0 Images''\<rparr>] \<and>
   written (processUrl
      (sample_env [Inr (api_images (JStr ''bob'') (JStr ''7'') (JNum 0) [])] [] JNull 0)
      photo_url init_state) = [] \<and>
   spinner (processUrl
      (sample_env [Inr (api_images (JStr ''bob'') (JStr ''7'') (JNum 0) [])] [] JNull 0)
      photo_url init_state) = Succeed ''Photo slide downloaded successfully!''"
proof -
  have len: "getProp (JArr []) ''length'' = Inr (JNum 0)"
    by (simp add: getProp_def)
  have loop: "\<And>env url a t d s. imagesLoop env url a (JArr []) t d 0 0 s = (Inr 0, s)"
    by (rule imagesLoop_done [OF len]) (simp add: js_lt_def)
  show ?thesis
    by (simp add: run_defs loop)
qed

text \<open>
  C3. A backup-API payload of type \<^verbatim>\<open>video\<close> with an empty \<^verbatim>\<open>playAddr\<close> must fail
  resolution. The guard \<^verbatim>\<open>!apiData.video?.playAddr\<close> lets the empty array pass, so
  \<^verbatim>\<open>playAddr[0]\<close>, which is \<^verbatim>\<open>undefined\<close>, becomes the playback URL and the download is
  attempted with it: the third request below has no URL, and the \<open>Failed\<close> record comes
  from \<^verbatim>\<open>downloadVideo\<close>, with the message of that request's error.
\<close>

theorem C3_empty_playAddr_is_downloaded:
  "requests (processUrl
      (sample_env [Inl (JsError ''AxiosError'' ''Request failed with status code 403''),
                   Inr (api_video (JStr ''ab'') (JStr ''123'') (JNum 0) []),
                   Inl (JsError ''TypeError'' ''Invalid URL'')] [] JNull 0)
      video_url init_state) =
     [pageRequest video_url, apiRequest video_url, mediaRequest JUndefined video_url ''arraybuffer''] \<and>
   downloadStats (processUrl
      (sample_env [Inl (JsError ''AxiosError'' ''Request failed with status code 403''),
                   Inr (api_video (JStr ''ab'') (JStr ''123'') (JNum 0) []),
                   Inl (JsError ''TypeError'' ''Invalid URL'')] [] JNull 0)
      video_url init_state) =
     [\<lparr>type' = ''Video'', id' = JStr ''123'', author = JStr ''ab'', status = Failed,
       details = ''Invalid URL''\<rparr>]"
  by (simp add: run_defs)

text \<open>
  C4. For a video URL the page is requested first. When the extraction from the page
  yields a video descriptor, the only other request is the download of its playback URL:
  the backup API is not called. When it yields none, the backup API is called next.
\<close>

theorem C4_markup_before_api:
  assumes "validateURL url" and "\<not> includes_str url ''/photo/''"
  shows "(\<exists>rest. requests (processUrl env url s) = requests s @ pageRequest url # rest) \<and>
         (\<forall>vd. fst (htmlExtraction env url s) = Some vd \<longrightarrow>
            requests (processUrl env url s) =
              requests s @ [pageRequest url, mediaRequest (videoUrl vd) url ''arraybuffer''] \<and>
            apiRequest url \<notin> set (drop (length (requests s)) (requests (processUrl env url s)))) \<and>
         (fst (htmlExtraction env url s) = None \<longrightarrow>
            (\<exists>rest. requests (processUrl env url s) = requests s @ pageRequest url # apiRequest url # rest))"
proof -
  let ?s0 = "s\<lparr>spinner := Spinning ''Analyzing URL...''\<rparr>"
  have tr: "processUrl_try env url ?s0 = processVideo env url ?s0"
    using assms by (simp add: processUrl_try_def)
  have a: "\<exists>rest. requests (processUrl env url s) = requests s @ pageRequest url # rest"
    using processVideo_requests [of env url ?s0] tr by (simp add: processUrl_requests)
  have b: "requests (processUrl env url s) =
              requests s @ [pageRequest url, mediaRequest (videoUrl vd) url ''arraybuffer''] \<and>
            apiRequest url \<notin> set (drop (length (requests s)) (requests (processUrl env url s)))"
    if "fst (htmlExtraction env url s) = Some vd" for vd
  proof -
    from that have "fst (htmlExtraction env url ?s0) = Some vd" by simp
    from processVideo_Some_requests [OF this] tr
    have r: "requests (processUrl env url s) =
              requests s @ [pageRequest url, mediaRequest (videoUrl vd) url ''arraybuffer'']"
      by (simp add: processUrl_requests)
    then show ?thesis by simp
  qed
  have c: "\<exists>rest. requests (processUrl env url s) = requests s @ pageRequest url # apiRequest url # rest"
    if "fst (htmlExtraction env url s) = None"
  proof -
    from that have "fst (htmlExtraction env url ?s0) = None" by simp
    from processVideo_None_requests [OF this] tr show ?thesis by (simp add: processUrl_requests)
  qed
  from a b c show ?thesis by blast
qed

theorem C4_markup_before_api_witness:
  "validateURL video_url \<and> \<not> includes_str video_url ''/photo/'' \<and>
   requests (processUrl (sample_env [Inr (JStr ''<html>''), Inr (JStr ''mp4'')] script_element
                                    (rehydration sample_item) 0) video_url init_state) =
     [pageRequest video_url,
      mediaRequest (JStr ''https://v16.tiktokcdn.com/123.mp4'') video_url ''arraybuffer''] \<and>
   apiRequest video_url \<notin>
     set (requests (processUrl (sample_env [Inr (JStr ''<html>''), Inr (JStr ''mp4'')] script_element
                                           (rehydration sample_item) 0) video_url init_state))"
proof -
  let ?env = "sample_env [Inr (JStr ''<html>''), Inr (JStr ''mp4'')] script_element (rehydration sample_item) 0"
  let ?vd = "\<lparr>authorUniqueId = JStr ''ab'', videoId = JStr ''123'', createTime = JNum 1709596800,
           videoUrl = JStr ''https://v16.tiktokcdn.com/123.mp4'', description = JStr ''a clip''\<rparr>"
  have h: "fst (htmlExtraction ?env video_url init_state) = Some ?vd"
    by (simp add: htmlExtraction_result sample_extraction answers_def init_state_def)
  have r: "requests init_state = []" by (simp add: init_state_def)
  from C4_markup_before_api [OF validateURL_video_url includes_video_url, of ?env init_state] h
  have "requests (processUrl ?env video_url init_state) =
              requests init_state @ [pageRequest video_url, mediaRequest (videoUrl ?vd) video_url ''arraybuffer''] \<and>
        apiRequest video_url \<notin> set (drop (length (requests init_state)) (requests (processUrl ?env video_url init_state)))"
    by blast
  with r validateURL_video_url includes_video_url show ?thesis by simp
qed

text \<open>
  C5. When the fetch and the write succeed, \<^verbatim>\<open>downloadVideo\<close> writes the payload under
  the video directory to the file \<^verbatim>\<open>{authorId}_vid_{DD}{MM}{YYYY}_{itemId}.mp4\<close>, where the
  date is the calendar date of \<^verbatim>\<open>createTime\<close> (seconds since the epoch) in the local time
  zone of the process, day and month padded with \<^verbatim>\<open>0\<close> to two characters and the year
  in plain decimal. With a zone offset of zero, \<^verbatim>\<open>ab\<close>, \<^verbatim>\<open>123\<close> and 1709596800
  (5 March 2024) give \<^verbatim>\<open>ab_vid_05032024_123.mp4\<close>.
\<close>

theorem C5_video_file_name:
  assumes fetch: "http env (length (requests s)) (mediaRequest (videoUrl vd) url ''arraybuffer'') = Inr buf"
    and dir: "VIDEO_DIR \<in> set (dirs s) \<or> mkdirSync_error env VIDEO_DIR = None"
    and wr: "writeFileSync_error env VIDEO_DIR
               (toString (authorUniqueId vd) @ ''_vid_'' @
                formatUploadDate (localTZA env) (createTime vd) @ ''_'' @
                toString (videoId vd) @ ''.mp4'') buf = None"
    and time: "createTime vd = JNum n" "\<bar>n * 1000\<bar> \<le> 8640000000000000"
    and date: "civil_from_days ((n * 1000 + localTZA env (n * 1000)) div 86400000) = (y, m, d)"
  shows "written (snd (downloadVideo env vd url s)) =
           written s @ [(VIDEO_DIR,
                         toString (authorUniqueId vd) @ ''_vid_'' @
                         padStart2 (show_int d) @ padStart2 (show_int m) @ show_int y @ ''_'' @
                         toString (videoId vd) @ ''.mp4'', buf)]"
proof -
  have "formatUploadDate (localTZA env) (createTime vd) =
          padStart2 (show_int d) @ padStart2 (show_int m) @ show_int y"
    using time date by (simp add: formatUploadDate_valid)
  with downloadVideo_saved [OF fetch dir wr] show ?thesis by simp
qed

theorem C5_video_file_name_witness:
  "civil_from_days 19787 = (2024, 3, 5) \<and>
   written (snd (downloadVideo (sample_env [Inr (JStr ''mp4'')] [] JNull 0)
      \<lparr>authorUniqueId = JStr ''ab'', videoId = JStr ''123'', createTime = JNum 1709596800,
        videoUrl = JStr ''https://v16.tiktokcdn.com/123.mp4'', description = JUndefined\<rparr>
      video_url init_state)) =
     [(VIDEO_DIR, ''ab_vid_05032024_123.mp4'', JStr ''mp4'')]"
proof -
  let ?env = "sample_env [Inr (JStr ''mp4'')] [] JNull 0"
  let ?vd = "\<lparr>authorUniqueId = JStr ''ab'', videoId = JStr ''123'', createTime = JNum 1709596800,
        videoUrl = JStr ''https://v16.tiktokcdn.com/123.mp4'', description = JUndefined\<rparr>"
  have c: "civil_from_days 19787 = (2024, 3, 5)"
    by code_simp
  have s: "padStart2 (show_int 5) @ padStart2 (show_int 3) @ show_int 2024 = ''05032024''"
    by code_simp
  have "written (snd (downloadVideo ?env ?vd video_url init_state)) =
           written init_state @ [(VIDEO_DIR,
                         toString (authorUniqueId ?vd) @ ''_vid_'' @
                         padStart2 (show_int 5) @ padStart2 (show_int 3) @ show_int 2024 @ ''_'' @
                         toString (videoId ?vd) @ ''.mp4'', JStr ''mp4'')]"
    by (rule C5_video_file_name [where n = 1709596800]) (simp_all add: c)
  with c s show ?thesis by simp
qed

text \<open>
  The date is not read in UTC: five hours west of Greenwich the same descriptor is saved
  under the date of 4 March. Nor has the year always four digits.
\<close>

theorem C5_counterexample:
  "written (snd (downloadVideo (sample_env [Inr (JStr ''mp4'')] [] JNull (- 18000000))
      \<lparr>authorUniqueId = JStr ''ab'', videoId = JStr ''123'', createTime = JNum 1709596800,
        videoUrl = JStr ''https://v16.tiktokcdn.com/123.mp4'', description = JUndefined\<rparr>
      video_url init_state)) =
     [(VIDEO_DIR, ''ab_vid_04032024_123.mp4'', JStr ''mp4'')] \<and>
   written (snd (downloadVideo (sample_env [Inr (JStr ''mp4'')] [] JNull 0)
      \<lparr>authorUniqueId = JStr ''ab'', videoId = JStr ''123'', createTime = JNum (- 31000000000),
        videoUrl = JStr ''https://v16.tiktokcdn.com/123.mp4'', description = JUndefined\<rparr>
      video_url init_state)) =
     [(VIDEO_DIR, ''ab_vid_2508987_123.mp4'', JStr ''mp4'')]"
  by (simp add: run_defs date_new_york date_year_987)

text \<open>
  C6. A photo set of three images whose second fetch fails: the images are fetched one
  after the other, so exactly one file has been written (the first image, numbered 1), it
  stays written, the third image is never requested, one \<open>Failed\<close> record is appended
  for the set, and \<^verbatim>\<open>processUrl\<close> ends by reporting the error on the spinner instead of
  throwing it.
\<close>

theorem C6_second_image_fails:
  assumes valid: "validateURL url" and photo: "includes_str url ''/photo/''"
    and api: "http env (length (requests s)) (apiRequest url) = Inr (api_images a pid t [u1, u2, u3])"
    and dir: "IMAGE_DIR \<in> set (dirs s) \<or> mkdirSync_error env IMAGE_DIR = None"
    and img1: "http env (length (requests s) + 1) (mediaRequest u1 url ''arraybuffer'') = Inr d1"
    and wr1: "writeFileSync_error env IMAGE_DIR
                (toString a @ ''_img_'' @ formatUploadDate (localTZA env) t @ ''_'' @
                 toString pid @ ''_1.jpg'') d1 = None"
    and img2: "http env (length (requests s) + 2) (mediaRequest u2 url ''arraybuffer'') = Inl e"
  shows "written (processUrl env url s) =
           written s @ [(IMAGE_DIR, toString a @ ''_img_'' @ formatUploadDate (localTZA env) t @ ''_'' @
                                    toString pid @ ''_1.jpg'', d1)] \<and>
         downloadStats (processUrl env url s) =
           downloadStats s @ [\<lparr>type' = ''Photo'', id' = js_or pid (JStr ''Unknown''),
                                author = js_or a (JStr ''Unknown''), status = Failed,
                                details = message e\<rparr>] \<and>
         requests (processUrl env url s) =
           requests s @ [apiRequest url, mediaRequest u1 url ''arraybuffer'',
                         mediaRequest u2 url ''arraybuffer''] \<and>
         spinner (processUrl env url s) = Fail (''Error: '' @ message e)"
proof -
  have g: "fst (getMediaInfoFromAPI env url s) =
     Inr (JObj [(''type'', JStr ''image''), (''id'', pid), (''createTime'', t),
                (''author'', JObj [(''username'', a)]), (''images'', JArr [u1, u2, u3])])"
    using api by (simp add: api_images_result)
  have dl: "downloadImages env url pid (JArr [u1, u2, u3]) t a u =
           (Inl e,
            u\<lparr>downloadStats := downloadStats u @
                  [\<lparr>type' = ''Photo'', id' = js_or pid (JStr ''Unknown''),
                    author = js_or a (JStr ''Unknown''), status = Failed, details = message e\<rparr>],
              requests := requests u @ [mediaRequest u1 url ''arraybuffer'', mediaRequest u2 url ''arraybuffer''],
              dirs := (if IMAGE_DIR \<in> set (dirs u) then dirs u else dirs u @ [IMAGE_DIR]),
              written := written u @
                  [(IMAGE_DIR, toString a @ ''_img_'' @ formatUploadDate (localTZA env) t @ ''_'' @
                               toString pid @ ''_1.jpg'', d1)],
              spinner := Spinning ''Downloading Image 2/3...''\<rparr>)"
    if "requests u = requests s @ [apiRequest url]" and "dirs u = dirs s" for u
    by (rule downloadImages_second_fails) (use that dir img1 wr1 img2 in simp_all)
  have p: "fst (processPhoto env url s) = Inl e \<and>
           written (snd (processPhoto env url s)) =
             written s @ [(IMAGE_DIR, toString a @ ''_img_'' @ formatUploadDate (localTZA env) t @ ''_'' @
                                    toString pid @ ''_1.jpg'', d1)] \<and>
           downloadStats (snd (processPhoto env url s)) =
             downloadStats s @ [\<lparr>type' = ''Photo'', id' = js_or pid (JStr ''Unknown''),
                                author = js_or a (JStr ''Unknown''), status = Failed,
                                details = message e\<rparr>] \<and>
           requests (snd (processPhoto env url s)) =
             requests s @ [apiRequest url, mediaRequest u1 url ''arraybuffer'',
                         mediaRequest u2 url ''arraybuffer'']"
    unfolding processPhoto_def
    by (simp add: bind_eq g getProp_def bindE_def show_int_def dl)
  have q: "\<And>sp. processPhoto env url (s\<lparr>spinner := sp\<rparr>) = processPhoto env url s"
    unfolding processPhoto_def by (simp add: bind_def)
  show ?thesis
    using valid photo p
    by (cases "processPhoto env url s") (simp add: processUrl_def processUrl_try_def q)
qed

theorem C6_second_image_fails_witness:
  "written (processUrl
      (sample_env [Inr (api_images (JStr ''bob'') (JStr ''7'') (JNum 1709596800)
                          [JStr ''https://p16.tiktokcdn.com/1.jpg'', JStr ''https://p16.tiktokcdn.com/2.jpg'',
                           JStr ''https://p16.tiktokcdn.com/3.jpg'']),
                   Inr (JStr ''jpeg''),
                   Inl (JsError ''AxiosError'' ''Request failed with status code 403'')] [] JNull 0)
      photo_url init_state) = [(IMAGE_DIR, ''bob_img_05032024_7_1.jpg'', JStr ''jpeg'')] \<and>
   downloadStats (processUrl
      (sample_env [Inr (api_images (JStr ''bob'') (JStr ''7'') (JNum 1709596800)
                          [JStr ''https://p16.tiktokcdn.com/1.jpg'', JStr ''https://p16.tiktokcdn.com/2.jpg'',
                           JStr ''https://p16.tiktokcdn.com/3.jpg'']),
                   Inr (JStr ''jpeg''),
                   Inl (JsError ''AxiosError'' ''Request failed with status code 403'')] [] JNull 0)
      photo_url init_state) =
     [\<lparr>type' = ''Photo'', id' = JStr ''7'', author = JStr ''bob'', status = Failed,
       details = ''Request failed with status code 403''\<rparr>]"
proof -
  let ?env = "sample_env [Inr (api_images (JStr ''bob'') (JStr ''7'') (JNum 1709596800)
                          [JStr ''https://p16.tiktokcdn.com/1.jpg'', JStr ''https://p16.tiktokcdn.com/2.jpg'',
                           JStr ''https://p16.tiktokcdn.com/3.jpg'']),
                   Inr (JStr ''jpeg''),
                   Inl (JsError ''AxiosError'' ''Request failed with status code 403'')] [] JNull 0"
  have "written (processUrl ?env photo_url init_state) =
           written init_state @ [(IMAGE_DIR, toString (JStr ''bob'') @ ''_img_'' @
              formatUploadDate (localTZA ?env) (JNum 1709596800) @ ''_'' @
              toString (JStr ''7'') @ ''_1.jpg'', JStr ''jpeg'')] \<and>
         downloadStats (processUrl ?env photo_url init_state) =
           downloadStats init_state @ [\<lparr>type' = ''Photo'', id' = js_or (JStr ''7'') (JStr ''Unknown''),
                                author = js_or (JStr ''bob'') (JStr ''Unknown''), status = Failed,
                                details = message (JsError ''AxiosError'' ''Request failed with status code 403'')\<rparr>] \<and>
         requests (processUrl ?env photo_url init_state) =
           requests init_state @ [apiRequest photo_url, mediaRequest (JStr ''https://p16.tiktokcdn.com/1.jpg'') photo_url ''arraybuffer'',
                         mediaRequest (JStr ''https://p16.tiktokcdn.com/2.jpg'') photo_url ''arraybuffer''] \<and>
         spinner (processUrl ?env photo_url init_state) =
           Fail (''Error: '' @ message (JsError ''AxiosError'' ''Request failed with status code 403''))"
    by (rule C6_second_image_fails [OF validateURL_photo_url includes_photo_url]) simp_all
  then show ?thesis by (simp add: date_utc js_or_def)
qed

text \<open>
  C7. For a video URL, a failure of the HTML extraction never ends the chain: when the
  page request fails, the parser throws, the rehydration element or its text is missing,
  \<^verbatim>\<open>JSON.parse\<close> throws, an access inside the extraction throws, or the video detail,
  \<^verbatim>\<open>itemStruct\<close>, \<^verbatim>\<open>author\<close> or \<^verbatim>\<open>video\<close> is missing, the extraction yields no
  descriptor and the next request is the one to the backup API.
\<close>

theorem C7_markup_falls_through:
  assumes "validateURL url" and "\<not> includes_str url ''/photo/''"
    and "markupNotApplicable env (length (requests s)) url"
  shows "fst (htmlExtraction env url s) = None \<and>
         (\<exists>rest. requests (processUrl env url s) = requests s @ pageRequest url # apiRequest url # rest)"
proof -
  from assms(3) have none: "fst (htmlExtraction env url s) = None"
  proof cases
    case (transport e)
    then show ?thesis by (simp add: htmlExtraction_result)
  next
    case (parser html e)
    then show ?thesis by (simp add: htmlExtraction_result)
  next
    case (absent html els)
    then show ?thesis by (auto simp: htmlExtraction_result)
  next
    case (syntax_error html els rawJSON e)
    then show ?thesis by (simp add: htmlExtraction_result extract_syntax_error)
  next
    case (missing html els rawJSON parsedJSON)
    then show ?thesis by (simp add: htmlExtraction_result extract_try_missing)
  next
    case (thrown html els rawJSON e)
    then show ?thesis by (simp add: htmlExtraction_result extract_thrown)
  qed
  with processUrl_video_None_requests [OF assms(1,2)] show ?thesis by blast
qed

theorem C7_markup_falls_through_witness:
  "markupNotApplicable (sample_env [] [] JNull 0) (length (requests init_state)) video_url \<and>
   (\<exists>rest. requests (processUrl (sample_env [] [] JNull 0) video_url init_state) =
      pageRequest video_url # apiRequest video_url # rest)"
proof -
  have m: "markupNotApplicable (sample_env [] [] JNull 0) (length (requests init_state)) video_url"
    by (rule markupNotApplicable.transport) simp
  from C7_markup_falls_through [OF validateURL_video_url includes_video_url m] m
  show ?thesis by simp
qed

text \<open>
  A missing \<^verbatim>\<open>id\<close>, \<^verbatim>\<open>uniqueId\<close>, \<^verbatim>\<open>createTime\<close> or \<^verbatim>\<open>playAddr\<close> is not such a
  failure: the extraction returns a descriptor whose fields are \<^verbatim>\<open>undefined\<close>, the backup
  API is not asked, and the download is attempted.
\<close>

theorem C7_counterexample:
  "optProp incomplete_item ''id'' = JUndefined \<and>
   optProp (optProp incomplete_item ''author'') ''uniqueId'' = JUndefined \<and>
   optProp (optProp incomplete_item ''video'') ''playAddr'' = JUndefined \<and>
   requests (processUrl (sample_env [Inr (JStr ''<html>'')] script_element
                                    (rehydration incomplete_item) 0) video_url init_state) =
     [pageRequest video_url, mediaRequest JUndefined video_url ''arraybuffer''] \<and>
   apiRequest video_url \<notin>
     set (requests (processUrl (sample_env [Inr (JStr ''<html>'')] script_element
                                           (rehydration incomplete_item) 0) video_url init_state))"
proof -
  let ?env = "sample_env [Inr (JStr ''<html>'')] script_element (rehydration incomplete_item) 0"
  have x: "extractVideoDataFromJson ?env ''{...}'' =
     Some \<lparr>authorUniqueId = JUndefined, videoId = JUndefined, createTime = JUndefined,
           videoUrl = JUndefined, description = JUndefined\<rparr>"
    by (simp add: extractVideoDataFromJson_def extractVideoDataFromJson_try_def
        rehydration_def incomplete_item_def bindE_def getProp_def js_gt_def)
  have h: "fst (htmlExtraction ?env video_url (init_state\<lparr>spinner := Spinning ''Analyzing URL...''\<rparr>)) =
     Some \<lparr>authorUniqueId = JUndefined, videoId = JUndefined, createTime = JUndefined,
           videoUrl = JUndefined, description = JUndefined\<rparr>"
    by (simp add: htmlExtraction_result x)
  have "requests (processUrl ?env video_url init_state) =
     [pageRequest video_url, mediaRequest JUndefined video_url ''arraybuffer'']"
    using processVideo_Some_requests [OF h]
    by (simp add: processUrl_requests processUrl_try_def)
  then show ?thesis by (simp add: incomplete_item_def)
qed




text \<open>
  C9. Classification decides on the raw string: a valid URL takes the photo-set branch
  exactly when the literal text \<^verbatim>\<open>/photo/\<close> occurs somewhere in it (in the path, the
  query string or the fragment alike), and the video branch otherwise. The branch shows
  in the first request sent: the backup API for a photo set, the page itself for a video.
\<close>

theorem C9_classification:
  assumes "validateURL url"
  shows "processUrl_try env url =
           (if (\<exists>p q. url = p @ ''/photo/'' @ q) then processPhoto env url else processVideo env url) \<and>
         (\<exists>rest. requests (processUrl env url s) =
            requests s @ (if (\<exists>p q. url = p @ ''/photo/'' @ q) then apiRequest url else pageRequest url) # rest)"
proof -
  let ?s0 = "s\<lparr>spinner := Spinning ''Analyzing URL...''\<rparr>"
  have split: "processUrl_try env url =
           (if (\<exists>p q. url = p @ ''/photo/'' @ q) then processPhoto env url else processVideo env url)"
    using assms by (simp add: processUrl_try_def includes_str_iff)
  have "\<exists>rest. requests (snd (processPhoto env url ?s0)) = requests s @ apiRequest url # rest"
    using processPhoto_requests [of env url ?s0] by simp
  moreover have "\<exists>rest. requests (snd (processVideo env url ?s0)) = requests s @ pageRequest url # rest"
    using processVideo_requests [of env url ?s0] by simp
  ultimately show ?thesis using split by (simp add: processUrl_requests)
qed

theorem C9_classification_witness:
  "validateURL ''https://www.tiktok.com/@a/video/1?from=/photo/'' \<and>
   (\<exists>rest. requests (processUrl (sample_env [] [] JNull 0) ''https://www.tiktok.com/@a/video/1?from=/photo/'' init_state) =
      apiRequest ''https://www.tiktok.com/@a/video/1?from=/photo/'' # rest)"
proof -
  have v: "validateURL ''https://www.tiktok.com/@a/video/1?from=/photo/''"
    by (simp add: validateURL_def TIKTOK_URL_REGEX_test_def lit_def opt_def line_terminator_def)
  have i: "\<exists>p q. ''https://www.tiktok.com/@a/video/1?from=/photo/'' = p @ ''/photo/'' @ q"
    unfolding includes_str_iff [symmetric] by simp
  from C9_classification [OF v, of "sample_env [] [] JNull 0" init_state]
  have "\<exists>rest. requests (processUrl (sample_env [] [] JNull 0) ''https://www.tiktok.com/@a/video/1?from=/photo/'' init_state) =
      requests init_state @ (if (\<exists>p q. ''https://www.tiktok.com/@a/video/1?from=/photo/'' = p @ ''/photo/'' @ q)
         then apiRequest ''https://www.tiktok.com/@a/video/1?from=/photo/''
         else pageRequest ''https://www.tiktok.com/@a/video/1?from=/photo/'') # rest"
    by (rule conjunct2)
  with i have "\<exists>rest. requests (processUrl (sample_env [] [] JNull 0) ''https://www.tiktok.com/@a/video/1?from=/photo/'' init_state) =
      requests init_state @ apiRequest ''https://www.tiktok.com/@a/video/1?from=/photo/'' # rest"
    by (simp only: if_True)
  moreover have "requests init_state = []" by (simp add: init_state_def)
  ultimately show ?thesis using v by (simp only: append_Nil simp_thms)
qed

text \<open>
  C10. \<^verbatim>\<open>downloadImages\<close> appends one record whose label depends on the outcome: a
  successful download is recorded with type \<^verbatim>\<open>Photo Slide\<close>, a failed one with type
  \<^verbatim>\<open>Photo\<close>, its id and author replaced by \<^verbatim>\<open>Unknown\<close> when they are falsy, and the
  two labels differ.
\<close>

theorem C10_photo_labels:
  "\<exists>rec. downloadStats (snd (downloadImages env url imageId imageUrls timestamp authorId s)) =
           downloadStats s @ [rec] \<and>
     (case fst (downloadImages env url imageId imageUrls timestamp authorId s) of
        Inr u \<Rightarrow> status rec = Success \<and> type' rec = ''Photo Slide'' \<and>
                 id' rec = imageId \<and> author rec = authorId
      | Inl e \<Rightarrow> status rec = Failed \<and> type' rec = ''Photo'' \<and>
                 id' rec = (if truthy imageId then imageId else JStr ''Unknown'') \<and>
                 author rec = (if truthy authorId then authorId else JStr ''Unknown'') \<and>
                 details rec = message e) \<and>
     type' rec \<in> {''Photo Slide'', ''Photo''} \<and> ''Photo Slide'' \<noteq> ''Photo''"
proof -
  obtain rec where rec:
    "downloadStats (snd (downloadImages env url imageId imageUrls timestamp authorId s)) =
       downloadStats s @ [rec]"
    "case fst (downloadImages env url imageId imageUrls timestamp authorId s) of
        Inl e \<Rightarrow> rec = \<lparr>type' = ''Photo'', id' = js_or imageId (JStr ''Unknown''),
                   author = js_or authorId (JStr ''Unknown''), status = Failed, details = message e\<rparr>
      | Inr u \<Rightarrow> type' rec = ''Photo Slide'' \<and> id' rec = imageId \<and> author rec = authorId \<and>
                 status rec = Success"
    using downloadImages_outcome [of env url imageId imageUrls timestamp authorId s] by blast
  show ?thesis
  proof (cases "fst (downloadImages env url imageId imageUrls timestamp authorId s)")
    case (Inl e)
    with rec show ?thesis by (intro exI [of _ rec]) (simp add: js_or_def)
  next
    case (Inr u)
    with rec show ?thesis by (intro exI [of _ rec]) simp
  qed
qed

theorem C10_photo_labels_witness:
  "\<exists>rec. downloadStats (snd (downloadImages (sample_env [] [] JNull 0) photo_url (JStr ''7'')
             (JArr [JStr ''https://p16.tiktokcdn.com/1.jpg'']) (JNum 0) JUndefined init_state)) = [rec] \<and>
     status rec = Failed \<and> type' rec = ''Photo'' \<and> id' rec = JStr ''7'' \<and>
     author rec = JStr ''Unknown'' \<and> details rec = ''Network Error''"
proof -
  let ?env = "sample_env [] [] JNull 0"
  let ?dl = "downloadImages ?env photo_url (JStr ''7'') (JArr [JStr ''https://p16.tiktokcdn.com/1.jpg''])
               (JNum 0) JUndefined init_state"
  have len: "getProp (JArr [JStr ''https://p16.tiktokcdn.com/1.jpg'']) ''length'' = Inr (JNum 1)"
    by (simp add: getProp_def)
  have "fst ?dl = Inl (JsError ''AxiosError'' ''Network Error'')"
    unfolding downloadImages_def
    by (simp add: bind_def ensureDirectoryExists_def imagesLoop_fetch_fails [OF len] js_lt_def)
  with C10_photo_labels [of ?env photo_url "JStr ''7''" "JArr [JStr ''https://p16.tiktokcdn.com/1.jpg'']"
         "JNum 0" JUndefined init_state]
  show ?thesis by auto
qed

end
